theory Spec2Isabelle
  imports Main "HOL-Library.Word"
begin

unbundle bit_operations_syntax

section \<open>Memory: string objects, heap and arenas\<close>

text \<open>
  \<^verbatim>\<open>arenastring.h\<close> keeps one tagged pointer per string field. The pointer is a
  \<^verbatim>\<open>uintptr_t\<close>; the objects it points to live in a store that maps addresses to
  string objects. An \<^verbatim>\<open>Arena*\<close> is an optional arena identity (\<open>None\<close> is
  \<^verbatim>\<open>NULL\<close>), and so is every nullable \<^verbatim>\<open>std::string*\<close> argument or result.
\<close>

type_synonym uintptr = "64 word"
type_synonym arena = nat

datatype error =
    DCheckFailed  \<comment> \<open>a \<^verbatim>\<open>GOOGLE_DCHECK\<close> that does not hold\<close>
  | BadDeref      \<comment> \<open>access through a pointer to no live object\<close>
  | BadDelete     \<comment> \<open>\<^verbatim>\<open>delete\<close> of something that is not a live heap object\<close>
  | BadAlloc      \<comment> \<open>the address space is exhausted\<close>

text \<open>
  Where the characters of a string are: in the 16 bytes inside the object, in a buffer of
  \<open>capacity + 1\<close> bytes from the string's own allocator, in an array of exactly
  \<open>capacity\<close> bytes from \<^verbatim>\<open>new char[]\<close>, or in an array of exactly \<open>capacity\<close> bytes
  from an arena. The last two are the buffers that \<^verbatim>\<open>ArenaString\<close> writes into the
  representation itself.
\<close>

datatype buffer = Inline | HeapBuf | CharArray | ArenaBuf arena

fun on_arena :: "buffer \<Rightarrow> bool" where
  "on_arena (ArenaBuf a) = True"
| "on_arena Inline = False"
| "on_arena HeapBuf = False"
| "on_arena CharArray = False"

fun exact_array :: "buffer \<Rightarrow> bool" where
  "exact_array (ArenaBuf a) = True"
| "exact_array CharArray = True"
| "exact_array Inline = False"
| "exact_array HeapBuf = False"

datatype placement = Static | OnHeap | InArena arena

text \<open>
  A string object as \<^verbatim>\<open>ArenaString::StrRep\<close> sees it: the characters (\<open>len\<close> is
  their number), the capacity, and where the character buffer is; \<open>place\<close> says where
  the object itself was allocated. \<^verbatim>\<open>ArenaString\<close> derives from
  \<^verbatim>\<open>std::string\<close> and adds no field, so both have this shape.
\<close>

record str =
  data :: string
  capacity :: nat
  buf :: buffer
  place :: placement

record memory =
  objs :: "uintptr \<rightharpoonup> str"
  brk :: nat
  owned :: "(arena \<times> uintptr) list"
  deleted :: "uintptr list"
  arrays :: "(arena option \<times> nat) list"
  overruns :: "uintptr list"

definition kInternalCapacity :: nat where
  "kInternalCapacity = 15"

subsection \<open>The standard library's string, as far as the header uses it\<close>

text \<open>
  The operations of \<^verbatim>\<open>std::string\<close> that the header calls, as the implementation
  whose layout \<^verbatim>\<open>StrRep\<close> copies does them (pointer, length, then the capacity sharing
  its place with a 15-character inline buffer). A string of at most 15 characters is built
  inline, a longer one gets a buffer of exactly its length (and one byte more for the
  terminator). An assignment that fits the capacity copies the characters into the buffer
  the string has and writes the terminator after them. One that does not fit takes a new
  buffer of at least twice the old capacity and hands the old buffer, unless it is the
  inline one, to \<^verbatim>\<open>operator delete\<close>.
\<close>

definition string_copy :: "string \<Rightarrow> placement \<Rightarrow> str" where
  "string_copy v pl =
     (if length v \<le> kInternalCapacity
      then \<lparr>data = v, capacity = kInternalCapacity, buf = Inline, place = pl\<rparr>
      else \<lparr>data = v, capacity = length v, buf = HeapBuf, place = pl\<rparr>)"

definition string_empty :: "placement \<Rightarrow> str" where
  "string_empty pl = \<lparr>data = [], capacity = kInternalCapacity, buf = Inline, place = pl\<rparr>"

definition string_moved_to :: "str \<Rightarrow> placement \<Rightarrow> str" where
  "string_moved_to src pl =
     (if buf src = Inline
      then \<lparr>data = data src, capacity = kInternalCapacity, buf = Inline, place = pl\<rparr>
      else \<lparr>data = data src, capacity = capacity src, buf = buf src, place = pl\<rparr>)"

definition string_moved_from :: "str \<Rightarrow> str" where
  "string_moved_from src = src\<lparr>data := [], capacity := kInternalCapacity, buf := Inline\<rparr>"

text \<open>
  The assignment, on the representation: what the string is afterwards, or that the
  program stops. When the string outgrows an array that came from an arena,
  \<^verbatim>\<open>operator delete\<close> is given memory that is not the heap's, and the program stops
  there. An array from \<^verbatim>\<open>new char[]\<close> is released by it. Where the terminator of an
  assignment in place goes is \<open>writes_past_end\<close>; \<open>assign_at\<close> below does both to a
  string in memory, and is what every \<^verbatim>\<open>assign\<close> and \<^verbatim>\<open>operator=\<close> of the header
  is modelled by.
\<close>

definition string_assign :: "string \<Rightarrow> str \<Rightarrow> error + str" where
  "string_assign v s =
     (if length v \<le> capacity s then Inr (s\<lparr>data := v\<rparr>)
      else if on_arena (buf s) then Inl BadDelete
      else Inr (s\<lparr>data := v, capacity := max (length v) (2 * capacity s), buf := HeapBuf\<rparr>))"

text \<open>
  Writing \<open>n\<close> characters and the terminator into the buffer the string has goes one
  byte past the end when the buffer is an array of exactly \<open>capacity\<close> bytes and
  \<open>n\<close> is the capacity.
\<close>

definition writes_past_end :: "nat \<Rightarrow> str \<Rightarrow> bool" where
  "writes_past_end n s \<longleftrightarrow> exact_array (buf s) \<and> n = capacity s"

definition string_move_assign :: "str \<Rightarrow> str \<Rightarrow> str" where
  "string_move_assign v s =
     (if buf v = Inline then s\<lparr>data := data v\<rparr>
      else s\<lparr>data := data v, capacity := capacity v, buf := buf v\<rparr>)"

definition string_clear :: "str \<Rightarrow> str" where
  "string_clear s = s\<lparr>data := []\<rparr>"

subsection \<open>Loads, stores, new and delete\<close>

definition deref :: "memory \<Rightarrow> uintptr \<Rightarrow> error + str" where
  "deref m p = (case objs m p of None \<Rightarrow> Inl BadDeref | Some s \<Rightarrow> Inr s)"

definition store :: "uintptr \<Rightarrow> str \<Rightarrow> memory \<Rightarrow> memory" where
  "store p s m = m\<lparr>objs := (objs m)(p \<mapsto> s)\<rparr>"

definition modify :: "uintptr \<Rightarrow> (str \<Rightarrow> str) \<Rightarrow> memory \<Rightarrow> error + memory" where
  "modify p f m = (case deref m p of Inl e \<Rightarrow> Inl e | Inr s \<Rightarrow> Inr (store p (f s) m))"

text \<open>
  A terminator written one byte past the array of the string at \<open>p\<close>. Which object
  holds that byte depends on the layout of the arena or the heap, which the memory does not
  have; the write is recorded in \<open>overruns\<close>.
\<close>

definition overrun :: "uintptr \<Rightarrow> memory \<Rightarrow> memory" where
  "overrun p m = m\<lparr>overruns := overruns m @ [p]\<rparr>"

text \<open>\<^verbatim>\<open>p->assign(v)\<close>, which is also \<^verbatim>\<open>*p = v\<close>, and \<^verbatim>\<open>p->clear()\<close>.\<close>

definition assign_at :: "string \<Rightarrow> uintptr \<Rightarrow> memory \<Rightarrow> error + memory" where
  "assign_at v p m =
     (case deref m p of
        Inl e \<Rightarrow> Inl e
      | Inr s \<Rightarrow>
          (case string_assign v s of
             Inl e \<Rightarrow> Inl e
           | Inr s' \<Rightarrow>
               Inr (store p s' (if writes_past_end (length v) s then overrun p m else m))))"

definition clear_at :: "uintptr \<Rightarrow> memory \<Rightarrow> error + memory" where
  "clear_at p m =
     (case deref m p of
        Inl e \<Rightarrow> Inl e
      | Inr s \<Rightarrow>
          Inr (store p (string_clear s) (if writes_past_end 0 s then overrun p m else m)))"

text \<open>
  Allocation of one string object, on the heap or in an arena: the next free address,
  32 bytes on. Addresses are 64 bits wide; when none is left the allocation fails.
\<close>

definition allocate :: "str \<Rightarrow> memory \<Rightarrow> error + (uintptr \<times> memory)" where
  "allocate s m =
     (if 2 ^ 64 \<le> brk m + 32 then Inl BadAlloc
      else Inr (word_of_nat (brk m),
                m\<lparr>objs := (objs m)(word_of_nat (brk m) \<mapsto> s), brk := brk m + 32\<rparr>))"

definition operator_new :: "str \<Rightarrow> memory \<Rightarrow> error + (uintptr \<times> memory)" where
  "operator_new s m = allocate (s\<lparr>place := OnHeap\<rparr>) m"

definition operator_delete :: "uintptr \<Rightarrow> memory \<Rightarrow> error + memory" where
  "operator_delete p m =
     (case objs m p of
        None \<Rightarrow> Inl BadDelete
      | Some s \<Rightarrow>
          if place s = OnHeap
          then Inr (m\<lparr>objs := (objs m)(p := None), deleted := deleted m @ [p]\<rparr>)
          else Inl BadDelete)"

definition new_char_array :: "nat \<Rightarrow> memory \<Rightarrow> memory" where
  "new_char_array n m = m\<lparr>arrays := arrays m @ [(None, n)]\<rparr>"

subsection \<open>The arena collaborator\<close>

text \<open>
  Modelled from the spec: \<^verbatim>\<open>arena.h\<close> is not part of the sources at hand. The spec
  gives its interface: \<open>allocate_bytes(n)\<close> returns a buffer whose lifetime is bound to
  the arena; \<open>construct<T>\<close> allocates and constructs a value in the arena, its
  destructor run at teardown (none is registered for a type that declares itself
  destructor-skippable, as \<^verbatim>\<open>ArenaString\<close> does); \<open>register_destructor(value)\<close>
  adopts a heap value without copying it. With no arena, \<^verbatim>\<open>Arena::Create\<close> is
  \<^verbatim>\<open>new\<close>.
\<close>

definition Arena_CreateArray :: "arena \<Rightarrow> nat \<Rightarrow> memory \<Rightarrow> memory" where
  "Arena_CreateArray a n m = m\<lparr>arrays := arrays m @ [(Some a, n)]\<rparr>"

definition Arena_Own :: "arena \<Rightarrow> uintptr \<Rightarrow> memory \<Rightarrow> memory" where
  "Arena_Own a p m = m\<lparr>owned := owned m @ [(a, p)]\<rparr>"

definition Arena_Create_string :: "arena option \<Rightarrow> string \<Rightarrow> memory \<Rightarrow> error + (uintptr \<times> memory)" where
  "Arena_Create_string arena v m =
     (case arena of
        None \<Rightarrow> operator_new (string_copy v OnHeap) m
      | Some a \<Rightarrow>
          (case allocate (string_copy v (InArena a)) m of
             Inl e \<Rightarrow> Inl e
           | Inr (p, m') \<Rightarrow> Inr (p, Arena_Own a p m')))"

section \<open>ArenaString\<close>

text \<open>
  \<^verbatim>\<open>ArenaString::Assign\<close>. Without an arena it is the plain assignment. With one,
  a capacity smaller than the new size makes it take a character array of exactly that
  size from the arena and write \<open>{ptr = buf, len = 0, capacity = size}\<close> over the string's
  own representation; then, in both cases, the plain assignment copies the characters in.
\<close>

definition Assign :: "string \<Rightarrow> arena option \<Rightarrow> uintptr \<Rightarrow> memory \<Rightarrow> error + (bool \<times> memory)" where
  "Assign other arena this m =
     (case deref m this of
        Inl e \<Rightarrow> Inl e
      | Inr s \<Rightarrow>
          (case arena of
             None \<Rightarrow>
               (case assign_at other this m of
                  Inl e \<Rightarrow> Inl e
                | Inr m' \<Rightarrow> Inr (False, m'))
           | Some a \<Rightarrow>
               (case assign_at other this
                       (if capacity s < length other
                        then let m1 = Arena_CreateArray a (length other) m;
                                 new_rep = s\<lparr>data := [], capacity := length other,
                                              buf := ArenaBuf a\<rparr>
                             in store this new_rep m1
                        else m) of
                  Inl e \<Rightarrow> Inl e
                | Inr m' \<Rightarrow> Inr (True, m'))))"

text \<open>
  \<^verbatim>\<open>ArenaString::MoveStorageToHeap\<close>: unless the capacity is the inline one, the
  characters are copied to a \<^verbatim>\<open>new char[size()]\<close> and the representation becomes
  \<open>{buf, size, size}\<close>. It returns \<^verbatim>\<open>this\<close>.
\<close>

definition MoveStorageToHeap :: "uintptr \<Rightarrow> memory \<Rightarrow> error + (uintptr \<times> memory)" where
  "MoveStorageToHeap this m =
     (case deref m this of
        Inl e \<Rightarrow> Inl e
      | Inr s \<Rightarrow>
          if capacity s \<noteq> kInternalCapacity
          then let m1 = new_char_array (length (data s)) m;
                   new_rep = s\<lparr>capacity := length (data s), buf := CharArray\<rparr>
               in Inr (this, store this new_rep m1)
          else Inr (this, m))"

text \<open>
  The constructor \<^verbatim>\<open>ArenaString(Arena*, const string&)\<close> run by
  \<^verbatim>\<open>Arena::CreateMessage<ArenaString>\<close>: an empty string placed in the arena (no
  destructor registered), then \<^verbatim>\<open>Assign(other, arena)\<close>.
\<close>

definition Arena_CreateMessage_ArenaString :: "arena \<Rightarrow> string \<Rightarrow> memory \<Rightarrow> error + (uintptr \<times> memory)" where
  "Arena_CreateMessage_ArenaString a other m =
     (case allocate (string_empty (InArena a)) m of
        Inl e \<Rightarrow> Inl e
      | Inr (p, m1) \<Rightarrow>
          (case Assign other (Some a) p m1 of
             Inl e \<Rightarrow> Inl e
           | Inr (_, m2) \<Rightarrow> Inr (p, m2)))"

section \<open>TaggedPtr\<close>

datatype cls = StdString | ArenaStr

fun class_tag :: "cls \<Rightarrow> bool" where
  "class_tag StdString = False"
| "class_tag ArenaStr = True"

type_synonym TaggedPtr = uintptr

definition kTagMask :: uintptr where
  "kTagMask = 1"

definition kPointerMask :: uintptr where
  "kPointerMask = NOT kTagMask"

definition TaggedPtr_Set :: "cls \<Rightarrow> uintptr \<Rightarrow> TaggedPtr" where
  "TaggedPtr_Set U p = p OR (if class_tag U then 1 else 0)"

definition TaggedPtr_Get :: "TaggedPtr \<Rightarrow> uintptr" where
  "TaggedPtr_Get ptr = ptr AND kPointerMask"

definition IsNull :: "TaggedPtr \<Rightarrow> bool" where
  "IsNull ptr \<longleftrightarrow> ptr AND kPointerMask = 0"

definition tag :: "TaggedPtr \<Rightarrow> bool" where
  "tag ptr \<longleftrightarrow> ptr AND kTagMask \<noteq> 0"

definition Is :: "cls \<Rightarrow> TaggedPtr \<Rightarrow> bool" where
  "Is U ptr \<longleftrightarrow> tag ptr = class_tag U"

text \<open>
  \<^verbatim>\<open>As<U>\<close> asserts \<^verbatim>\<open>GOOGLE_DCHECK(Is<U>())\<close> before it masks the tag off. The
  model stops with \<open>DCheckFailed\<close> where the assertion does not hold, as a debug build
  does; a build with \<^verbatim>\<open>NDEBUG\<close> goes on with the masked pointer. The results below
  are about calls that return, where the two builds agree.
\<close>

definition As :: "cls \<Rightarrow> TaggedPtr \<Rightarrow> error + uintptr" where
  "As U ptr = (if Is U ptr then Inr (ptr AND kPointerMask) else Inl DCheckFailed)"

section \<open>ArenaStringPtr\<close>

text \<open>
  The field holder has the one member \<^verbatim>\<open>ptr_\<close>. Every method takes the holder and
  the memory and returns what it returns together with the holder and the memory it
  leaves, or the error that stopped it.
\<close>

type_synonym ArenaStringPtr = TaggedPtr

definition IsDefault :: "uintptr \<Rightarrow> ArenaStringPtr \<Rightarrow> bool" where
  "IsDefault default_value ptr \<longleftrightarrow> Is StdString ptr \<and> As StdString ptr = Inr default_value"

text \<open>
  \<^verbatim>\<open>CreateInstance\<close> and \<^verbatim>\<open>CreateInstanceNoArena\<close> get a pointer to the initial
  value and copy what it points to; the model passes the characters. Their callers hand
  over the address of a reference or the default, which \<^verbatim>\<open>Mutable\<close> and
  \<^verbatim>\<open>MutableNoArena\<close> read from the memory first.
\<close>

definition CreateInstance :: "bool \<Rightarrow> arena option \<Rightarrow> string \<Rightarrow> memory \<Rightarrow> error + (ArenaStringPtr \<times> memory)" where
  "CreateInstance FORCE_STD_STRING arena initial_value m =
     (case arena of
        Some a \<Rightarrow>
          if \<not> FORCE_STD_STRING
          then (case Arena_CreateMessage_ArenaString a initial_value m of
                  Inl e \<Rightarrow> Inl e
                | Inr (p, m') \<Rightarrow> Inr (TaggedPtr_Set ArenaStr p, m'))
          else (case Arena_Create_string arena initial_value m of
                  Inl e \<Rightarrow> Inl e
                | Inr (p, m') \<Rightarrow> Inr (TaggedPtr_Set StdString p, m'))
      | None \<Rightarrow>
          (case Arena_Create_string arena initial_value m of
             Inl e \<Rightarrow> Inl e
           | Inr (p, m') \<Rightarrow> Inr (TaggedPtr_Set StdString p, m')))"

definition CreateInstanceNoArena :: "string \<Rightarrow> memory \<Rightarrow> error + (ArenaStringPtr \<times> memory)" where
  "CreateInstanceNoArena initial_value m =
     (case operator_new (string_copy initial_value OnHeap) m of
        Inl e \<Rightarrow> Inl e
      | Inr (p, m') \<Rightarrow> Inr (TaggedPtr_Set StdString p, m'))"

definition Set :: "uintptr \<Rightarrow> string \<Rightarrow> arena option \<Rightarrow> ArenaStringPtr \<Rightarrow> memory \<Rightarrow> error + (ArenaStringPtr \<times> memory)" where
  "Set default_value val arena ptr m =
     (if IsDefault default_value ptr then CreateInstance False arena val m
      else if Is StdString ptr
      then (case As StdString ptr of
              Inl e \<Rightarrow> Inl e
            | Inr p \<Rightarrow>
                (case assign_at val p m of
                   Inl e \<Rightarrow> Inl e
                 | Inr m' \<Rightarrow> Inr (ptr, m')))
      else (case As ArenaStr ptr of
              Inl e \<Rightarrow> Inl e
            | Inr p \<Rightarrow>
                (case Assign val arena p m of
                   Inl e \<Rightarrow> Inl e
                 | Inr (_, m') \<Rightarrow> Inr (ptr, m'))))"

text \<open>\<^verbatim>\<open>Get\<close> returns a reference to the payload; the model reads it.\<close>

definition Get :: "ArenaStringPtr \<Rightarrow> memory \<Rightarrow> error + string" where
  "Get ptr m = (case deref m (TaggedPtr_Get ptr) of Inl e \<Rightarrow> Inl e | Inr s \<Rightarrow> Inr (data s))"

definition Mutable :: "uintptr \<Rightarrow> arena option \<Rightarrow> ArenaStringPtr \<Rightarrow> memory \<Rightarrow> error + (uintptr \<times> ArenaStringPtr \<times> memory)" where
  "Mutable default_value arena ptr m =
     (if IsDefault default_value ptr
      then (case deref m default_value of
              Inl e \<Rightarrow> Inl e
            | Inr dv \<Rightarrow>
                (case CreateInstance True arena (data dv) m of
                   Inl e \<Rightarrow> Inl e
                 | Inr (ptr', m') \<Rightarrow>
                     (case As StdString ptr' of
                        Inl e \<Rightarrow> Inl e
                      | Inr r \<Rightarrow> Inr (r, ptr', m'))))
      else if Is ArenaStr ptr
      then (case As ArenaStr ptr of
              Inl e \<Rightarrow> Inl e
            | Inr this \<Rightarrow>
                (case MoveStorageToHeap this m of
                   Inl e \<Rightarrow> Inl e
                 | Inr (p, m') \<Rightarrow>
                     (case As StdString (TaggedPtr_Set StdString p) of
                        Inl e \<Rightarrow> Inl e
                      | Inr r \<Rightarrow> Inr (r, TaggedPtr_Set StdString p, m'))))
      else (case As StdString ptr of
              Inl e \<Rightarrow> Inl e
            | Inr r \<Rightarrow> Inr (r, ptr, m)))"

definition ReleaseNonDefault :: "uintptr \<Rightarrow> arena option \<Rightarrow> ArenaStringPtr \<Rightarrow> memory \<Rightarrow> error + (uintptr option \<times> ArenaStringPtr \<times> memory)" where
  "ReleaseNonDefault default_value arena ptr m =
     (if IsDefault default_value ptr then Inl DCheckFailed
      else
        (case
           (case arena of
              Some a \<Rightarrow>
                if Is StdString ptr
                then (case As StdString ptr of
                        Inl e \<Rightarrow> Inl e
                      | Inr p \<Rightarrow>
                          (case deref m p of
                             Inl e \<Rightarrow> Inl e
                           | Inr s \<Rightarrow>
                               (case operator_new (string_moved_to s OnHeap) m of
                                  Inl e \<Rightarrow> Inl e
                                | Inr (r, m1) \<Rightarrow> Inr (r, store p (string_moved_from s) m1))))
                else (case As ArenaStr ptr of
                        Inl e \<Rightarrow> Inl e
                      | Inr p \<Rightarrow>
                          (case deref m p of
                             Inl e \<Rightarrow> Inl e
                           | Inr s \<Rightarrow> operator_new (string_copy (data s) OnHeap) m))
            | None \<Rightarrow>
                (case As StdString ptr of
                   Inl e \<Rightarrow> Inl e
                 | Inr p \<Rightarrow> Inr (p, m)))
         of
           Inl e \<Rightarrow> Inl e
         | Inr (released, m') \<Rightarrow> Inr (Some released, TaggedPtr_Set StdString default_value, m')))"

definition Release :: "uintptr \<Rightarrow> arena option \<Rightarrow> ArenaStringPtr \<Rightarrow> memory \<Rightarrow> error + (uintptr option \<times> ArenaStringPtr \<times> memory)" where
  "Release default_value arena ptr m =
     (if IsDefault default_value ptr then Inr (None, ptr, m)
      else ReleaseNonDefault default_value arena ptr m)"

definition UnsafeArenaRelease :: "uintptr \<Rightarrow> arena option \<Rightarrow> ArenaStringPtr \<Rightarrow> memory \<Rightarrow> error + (uintptr option \<times> ArenaStringPtr \<times> memory)" where
  "UnsafeArenaRelease default_value arena ptr m =
     (if IsDefault default_value ptr then Inr (None, ptr, m)
      else
        (case
           (if Is ArenaStr ptr
            then (case As ArenaStr ptr of
                    Inl e \<Rightarrow> Inl e
                  | Inr this \<Rightarrow> MoveStorageToHeap this m)
            else (case As StdString ptr of
                    Inl e \<Rightarrow> Inl e
                  | Inr p \<Rightarrow> Inr (p, m)))
         of
           Inl e \<Rightarrow> Inl e
         | Inr (released, m') \<Rightarrow> Inr (Some released, TaggedPtr_Set StdString default_value, m')))"

definition Destroy :: "uintptr \<Rightarrow> arena option \<Rightarrow> ArenaStringPtr \<Rightarrow> memory \<Rightarrow> error + memory" where
  "Destroy default_value arena ptr m =
     (if arena = None
      then (if \<not> IsDefault default_value ptr
            then (case As StdString ptr of
                    Inl e \<Rightarrow> Inl e
                  | Inr p \<Rightarrow> operator_delete p m)
            else Inr m)
      else Inr m)"

definition SetAllocated :: "uintptr \<Rightarrow> uintptr option \<Rightarrow> arena option \<Rightarrow> ArenaStringPtr \<Rightarrow> memory \<Rightarrow> error + (ArenaStringPtr \<times> memory)" where
  "SetAllocated default_value val arena ptr m =
     (case (if arena = None \<and> \<not> IsDefault default_value ptr
            then Destroy default_value arena ptr m else Inr m) of
        Inl e \<Rightarrow> Inl e
      | Inr m1 \<Rightarrow>
          (case val of
             Some v \<Rightarrow>
               Inr (TaggedPtr_Set StdString v,
                    (case arena of Some a \<Rightarrow> Arena_Own a v m1 | None \<Rightarrow> m1))
           | None \<Rightarrow> Inr (TaggedPtr_Set StdString default_value, m1)))"

definition UnsafeArenaSetAllocated :: "uintptr \<Rightarrow> uintptr option \<Rightarrow> arena option \<Rightarrow> ArenaStringPtr \<Rightarrow> ArenaStringPtr" where
  "UnsafeArenaSetAllocated default_value val arena ptr =
     (case val of
        Some v \<Rightarrow> TaggedPtr_Set StdString v
      | None \<Rightarrow> TaggedPtr_Set StdString default_value)"

definition ClearToEmpty :: "uintptr \<Rightarrow> arena option \<Rightarrow> ArenaStringPtr \<Rightarrow> memory \<Rightarrow> error + memory" where
  "ClearToEmpty default_value arena ptr m =
     (if IsDefault default_value ptr then Inr m
      else clear_at (TaggedPtr_Get ptr) m)"

definition ClearToDefault :: "uintptr \<Rightarrow> arena option \<Rightarrow> ArenaStringPtr \<Rightarrow> memory \<Rightarrow> error + memory" where
  "ClearToDefault default_value arena ptr m =
     (if IsDefault default_value ptr then Inr m
      else (case deref m default_value of
              Inl e \<Rightarrow> Inl e
            | Inr dv \<Rightarrow> assign_at (data dv) (TaggedPtr_Get ptr) m))"

definition UnsafeSetDefault :: "uintptr \<Rightarrow> ArenaStringPtr" where
  "UnsafeSetDefault default_value = TaggedPtr_Set StdString default_value"

text \<open>
  \<^verbatim>\<open>Swap(other)\<close> exchanges the two \<^verbatim>\<open>ptr_\<close>. The three-argument overload does
  the same when \<^verbatim>\<open>NDEBUG\<close> is defined; in a debug build it exchanges the contents of
  the two strings instead, reached through \<^verbatim>\<open>Mutable\<close>.
\<close>

definition Swap :: "ArenaStringPtr \<Rightarrow> ArenaStringPtr \<Rightarrow> ArenaStringPtr \<times> ArenaStringPtr" where
  "Swap this other = (other, this)"

definition string_swap :: "uintptr \<Rightarrow> uintptr \<Rightarrow> memory \<Rightarrow> error + memory" where
  "string_swap p q m =
     (case deref m p of
        Inl e \<Rightarrow> Inl e
      | Inr a \<Rightarrow>
          (case deref m q of
             Inl e \<Rightarrow> Inl e
           | Inr b \<Rightarrow>
               Inr (store q (b\<lparr>data := data a, capacity := capacity a, buf := buf a\<rparr>)
                     (store p (a\<lparr>data := data b, capacity := capacity b, buf := buf b\<rparr>) m))))"

definition Swap3 :: "bool \<Rightarrow> uintptr \<Rightarrow> arena option \<Rightarrow> ArenaStringPtr \<Rightarrow> ArenaStringPtr \<Rightarrow> memory \<Rightarrow> error + (ArenaStringPtr \<times> ArenaStringPtr \<times> memory)" where
  "Swap3 NDEBUG default_value arena this other m =
     (if \<not> NDEBUG
      then (if IsDefault default_value this \<and> IsDefault default_value other
            then Inr (this, other, m)
            else (case Mutable default_value arena this m of
                    Inl e \<Rightarrow> Inl e
                  | Inr (this_ptr, this', m1) \<Rightarrow>
                      (case Mutable default_value arena other m1 of
                         Inl e \<Rightarrow> Inl e
                       | Inr (other_ptr, other', m2) \<Rightarrow>
                           (case string_swap this_ptr other_ptr m2 of
                              Inl e \<Rightarrow> Inl e
                            | Inr m3 \<Rightarrow> Inr (this', other', m3)))))
      else (case Swap this other of (this', other') \<Rightarrow> Inr (this', other', m)))"

subsection \<open>The NoArena methods\<close>

definition SetNoArena :: "uintptr \<Rightarrow> string \<Rightarrow> ArenaStringPtr \<Rightarrow> memory \<Rightarrow> error + (ArenaStringPtr \<times> memory)" where
  "SetNoArena default_value val ptr m =
     (if IsDefault default_value ptr then CreateInstanceNoArena val m
      else (case assign_at val (TaggedPtr_Get ptr) m of
              Inl e \<Rightarrow> Inl e
            | Inr m' \<Rightarrow> Inr (ptr, m')))"

text \<open>The overload taking \<^verbatim>\<open>std::string&&\<close>: the argument is the caller's string.\<close>

definition SetNoArena_rvalue :: "uintptr \<Rightarrow> str \<Rightarrow> ArenaStringPtr \<Rightarrow> memory \<Rightarrow> error + (ArenaStringPtr \<times> memory)" where
  "SetNoArena_rvalue default_value val ptr m =
     (if IsDefault default_value ptr
      then (case operator_new (string_moved_to val OnHeap) m of
              Inl e \<Rightarrow> Inl e
            | Inr (p, m') \<Rightarrow> Inr (TaggedPtr_Set StdString p, m'))
      else (case As StdString ptr of
              Inl e \<Rightarrow> Inl e
            | Inr p \<Rightarrow>
                (case modify p (string_move_assign val) m of
                   Inl e \<Rightarrow> Inl e
                 | Inr m' \<Rightarrow> Inr (ptr, m'))))"

definition GetNoArena :: "ArenaStringPtr \<Rightarrow> memory \<Rightarrow> error + string" where
  "GetNoArena ptr m =
     (case As StdString ptr of
        Inl e \<Rightarrow> Inl e
      | Inr p \<Rightarrow> (case deref m p of Inl e \<Rightarrow> Inl e | Inr s \<Rightarrow> Inr (data s)))"

definition MutableNoArena :: "uintptr \<Rightarrow> ArenaStringPtr \<Rightarrow> memory \<Rightarrow> error + (uintptr \<times> ArenaStringPtr \<times> memory)" where
  "MutableNoArena default_value ptr m =
     (case (if IsDefault default_value ptr
            then (case deref m default_value of
                    Inl e \<Rightarrow> Inl e
                  | Inr dv \<Rightarrow> CreateInstanceNoArena (data dv) m)
            else Inr (ptr, m)) of
        Inl e \<Rightarrow> Inl e
      | Inr (ptr', m') \<Rightarrow>
          (case As StdString ptr' of
             Inl e \<Rightarrow> Inl e
           | Inr r \<Rightarrow> Inr (r, ptr', m')))"

definition ReleaseNonDefaultNoArena :: "uintptr \<Rightarrow> ArenaStringPtr \<Rightarrow> memory \<Rightarrow> error + (uintptr option \<times> ArenaStringPtr \<times> memory)" where
  "ReleaseNonDefaultNoArena default_value ptr m =
     (if IsDefault default_value ptr then Inl DCheckFailed
      else (case As StdString ptr of
              Inl e \<Rightarrow> Inl e
            | Inr released \<Rightarrow> Inr (Some released, TaggedPtr_Set StdString default_value, m)))"

definition ReleaseNoArena :: "uintptr \<Rightarrow> ArenaStringPtr \<Rightarrow> memory \<Rightarrow> error + (uintptr option \<times> ArenaStringPtr \<times> memory)" where
  "ReleaseNoArena default_value ptr m =
     (if IsDefault default_value ptr then Inr (None, ptr, m)
      else ReleaseNonDefaultNoArena default_value ptr m)"

definition SetAllocatedNoArena :: "uintptr \<Rightarrow> uintptr option \<Rightarrow> ArenaStringPtr \<Rightarrow> memory \<Rightarrow> error + (ArenaStringPtr \<times> memory)" where
  "SetAllocatedNoArena default_value val ptr m =
     (case (if \<not> IsDefault default_value ptr
            then (case As StdString ptr of
                    Inl e \<Rightarrow> Inl e
                  | Inr p \<Rightarrow> operator_delete p m)
            else Inr m) of
        Inl e \<Rightarrow> Inl e
      | Inr m1 \<Rightarrow>
          (case val of
             Some v \<Rightarrow> Inr (TaggedPtr_Set StdString v, m1)
           | None \<Rightarrow> Inr (TaggedPtr_Set StdString default_value, m1)))"

definition DestroyNoArena :: "uintptr \<Rightarrow> ArenaStringPtr \<Rightarrow> memory \<Rightarrow> error + memory" where
  "DestroyNoArena default_value ptr m =
     (if \<not> IsDefault default_value ptr
      then (case As StdString ptr of
              Inl e \<Rightarrow> Inl e
            | Inr p \<Rightarrow> operator_delete p m)
      else Inr m)"

definition ClearToEmptyNoArena :: "uintptr \<Rightarrow> ArenaStringPtr \<Rightarrow> memory \<Rightarrow> error + memory" where
  "ClearToEmptyNoArena default_value ptr m =
     (if IsDefault default_value ptr then Inr m
      else (case As StdString ptr of
              Inl e \<Rightarrow> Inl e
            | Inr p \<Rightarrow> clear_at p m))"

definition ClearToDefaultNoArena :: "uintptr \<Rightarrow> ArenaStringPtr \<Rightarrow> memory \<Rightarrow> error + memory" where
  "ClearToDefaultNoArena default_value ptr m =
     (if IsDefault default_value ptr then Inr m
      else (case As StdString ptr of
              Inl e \<Rightarrow> Inl e
            | Inr p \<Rightarrow>
                (case deref m default_value of
                   Inl e \<Rightarrow> Inl e
                 | Inr dv \<Rightarrow> assign_at (data dv) p m)))"

section \<open>Well-formed holders and memories\<close>

text \<open>
  A \<^verbatim>\<open>std::string*\<close> is aligned, which is what leaves the low bit free for the tag.
\<close>

definition aligned :: "uintptr \<Rightarrow> bool" where
  "aligned p \<longleftrightarrow> p AND kTagMask = 0"

definition arena_registered :: "memory \<Rightarrow> uintptr \<Rightarrow> bool" where
  "arena_registered m p \<longleftrightarrow> p \<in> snd ` set (owned m)"

text \<open>
  A payload the caller may keep and \<^verbatim>\<open>delete\<close>: a live object allocated on the heap,
  its characters not in an arena buffer, and no arena holding a registration for it.
\<close>

definition heap_owned :: "memory \<Rightarrow> uintptr \<Rightarrow> bool" where
  "heap_owned m p \<longleftrightarrow>
     (case objs m p of
        None \<Rightarrow> False
      | Some s \<Rightarrow> place s = OnHeap \<and> \<not> on_arena (buf s) \<and> \<not> arena_registered m p)"

definition heap_backed :: "memory \<Rightarrow> uintptr \<Rightarrow> bool" where
  "heap_backed m p \<longleftrightarrow>
     (case objs m p of None \<Rightarrow> False | Some s \<Rightarrow> buf s = HeapBuf \<or> buf s = CharArray)"

text \<open>
  The memory has room for \<open>k\<close> more string objects, every live or registered object
  lies below the allocation mark, and the mark is aligned.
\<close>

definition mem_ok :: "nat \<Rightarrow> memory \<Rightarrow> bool" where
  "mem_ok k m \<longleftrightarrow>
     even (brk m) \<and> brk m + 32 * k < 2 ^ 64 \<and>
     (\<forall>p \<in> dom (objs m). unat p < brk m) \<and>
     (\<forall>p \<in> snd ` set (owned m). unat p < brk m)"

text \<open>
  What the header's comments ask of a holder used with the arena of its message: the
  default is a live, aligned string; a holder that is not unset points to a live string;
  the arena tag occurs only with an arena (\<open>a class instance that has only ever been
  mutated by NoArena methods must only be in the String state\<close>); under the heap tag the
  buffer is not on the arena (\<open>a true tag means the string buffer is on the arena\<close>);
  and without an arena the holder owns a plain heap string.
\<close>

definition holder_ok :: "uintptr \<Rightarrow> arena option \<Rightarrow> ArenaStringPtr \<Rightarrow> memory \<Rightarrow> bool" where
  "holder_ok default_value arena ptr m \<longleftrightarrow>
     aligned default_value \<and> default_value \<in> dom (objs m) \<and>
     (IsDefault default_value ptr \<or>
      (case objs m (TaggedPtr_Get ptr) of
         None \<Rightarrow> False
       | Some s \<Rightarrow>
           if tag ptr then arena \<noteq> None
           else \<not> on_arena (buf s) \<and> (arena = None \<longrightarrow> heap_owned m (TaggedPtr_Get ptr))))"

datatype holder_state = Unset | HeapOwned | ArenaResident

definition state_of :: "uintptr \<Rightarrow> ArenaStringPtr \<Rightarrow> holder_state" where
  "state_of default_value ptr =
     (if IsDefault default_value ptr then Unset
      else if Is StdString ptr then HeapOwned
      else ArenaResident)"

section \<open>Runs of operations\<close>

text \<open>A run of assignments to one \<^verbatim>\<open>ArenaString\<close>, each with its value and arena.\<close>

fun Assign_seq :: "(string \<times> arena option) list \<Rightarrow> uintptr \<Rightarrow> memory \<Rightarrow> error + memory" where
  "Assign_seq [] this m = Inr m"
| "Assign_seq ((v, arena) # rest) this m =
     (case Assign v arena this m of
        Inl e \<Rightarrow> Inl e
      | Inr (_, m') \<Rightarrow> Assign_seq rest this m')"

text \<open>The NoArena methods that change a holder, and a run of them on one holder.\<close>

datatype no_arena_op =
    OpSetNoArena string
  | OpSetNoArena_rvalue str
  | OpMutableNoArena
  | OpReleaseNoArena
  | OpSetAllocatedNoArena "uintptr option"
  | OpClearToEmptyNoArena
  | OpClearToDefaultNoArena
  | OpDestroyNoArena

fun step_no_arena :: "uintptr \<Rightarrow> no_arena_op \<Rightarrow> ArenaStringPtr \<Rightarrow> memory \<Rightarrow> error + (ArenaStringPtr \<times> memory)" where
  "step_no_arena d (OpSetNoArena v) ptr m = SetNoArena d v ptr m"
| "step_no_arena d (OpSetNoArena_rvalue v) ptr m = SetNoArena_rvalue d v ptr m"
| "step_no_arena d OpMutableNoArena ptr m =
     (case MutableNoArena d ptr m of Inl e \<Rightarrow> Inl e | Inr (_, ptr', m') \<Rightarrow> Inr (ptr', m'))"
| "step_no_arena d OpReleaseNoArena ptr m =
     (case ReleaseNoArena d ptr m of Inl e \<Rightarrow> Inl e | Inr (_, ptr', m') \<Rightarrow> Inr (ptr', m'))"
| "step_no_arena d (OpSetAllocatedNoArena v) ptr m = SetAllocatedNoArena d v ptr m"
| "step_no_arena d OpClearToEmptyNoArena ptr m =
     (case ClearToEmptyNoArena d ptr m of Inl e \<Rightarrow> Inl e | Inr m' \<Rightarrow> Inr (ptr, m'))"
| "step_no_arena d OpClearToDefaultNoArena ptr m =
     (case ClearToDefaultNoArena d ptr m of Inl e \<Rightarrow> Inl e | Inr m' \<Rightarrow> Inr (ptr, m'))"
| "step_no_arena d OpDestroyNoArena ptr m =
     (case DestroyNoArena d ptr m of Inl e \<Rightarrow> Inl e | Inr m' \<Rightarrow> Inr (ptr, m'))"

fun run_no_arena :: "uintptr \<Rightarrow> no_arena_op list \<Rightarrow> ArenaStringPtr \<Rightarrow> memory \<Rightarrow> error + (ArenaStringPtr \<times> memory)" where
  "run_no_arena d [] ptr m = Inr (ptr, m)"
| "run_no_arena d (x # xs) ptr m =
     (case step_no_arena d x ptr m of
        Inl e \<Rightarrow> Inl e
      | Inr (ptr', m') \<Rightarrow> run_no_arena d xs ptr' m')"

fun op_aligned :: "no_arena_op \<Rightarrow> bool" where
  "op_aligned (OpSetAllocatedNoArena (Some v)) = aligned v"
| "op_aligned _ = True"

section \<open>A small memory to run the operations on\<close>

definition ex_default :: uintptr where
  "ex_default = 32"

definition ex_mem :: memory where
  "ex_mem = \<lparr>objs = [32 \<mapsto> string_copy ''dflt'' Static], brk = 64,
             owned = [], deleted = [], arrays = [], overruns = []\<rparr>"

text \<open>The same memory with one more string at address 64: a heap string, an arena string.\<close>

definition ex_heap_mem :: memory where
  "ex_heap_mem = \<lparr>objs = [32 \<mapsto> string_copy ''dflt'' Static, 64 \<mapsto> string_copy ''old'' OnHeap],
                  brk = 96, owned = [], deleted = [], arrays = [], overruns = []\<rparr>"

definition ex_arena_mem :: memory where
  "ex_arena_mem = \<lparr>objs = [32 \<mapsto> string_copy ''dflt'' Static, 64 \<mapsto> string_copy ''old'' (InArena 0)],
                   brk = 96, owned = [], deleted = [], arrays = [], overruns = []\<rparr>"

text \<open>
  Two holders set from the unset state, the first to \<open>x\<close> without an arena, the
  second to \<open>y\<close> in arena 0: the memory after the first and after the second \<^verbatim>\<open>Set\<close>.
\<close>

definition ex_x_mem :: memory where
  "ex_x_mem = \<lparr>objs = [32 \<mapsto> string_copy ''dflt'' Static, 64 \<mapsto> string_copy ''x'' OnHeap],
               brk = 96, owned = [], deleted = [], arrays = [], overruns = []\<rparr>"

definition ex_xy_mem :: memory where
  "ex_xy_mem = \<lparr>objs = [32 \<mapsto> string_copy ''dflt'' Static, 64 \<mapsto> string_copy ''x'' OnHeap,
                        96 \<mapsto> string_copy ''y'' (InArena 0)],
                brk = 128, owned = [], deleted = [], arrays = [], overruns = []\<rparr>"

text \<open>A run of NoArena operations that sets, clears, releases, takes back and destroys.\<close>

definition ex_ops :: "no_arena_op list" where
  "ex_ops = [OpSetNoArena ''a'', OpClearToEmptyNoArena, OpSetNoArena ''b'',
             OpClearToDefaultNoArena, OpMutableNoArena, OpReleaseNoArena,
             OpSetAllocatedNoArena (Some 64), OpSetNoArena_rvalue (string_copy ''c'' OnHeap),
             OpSetAllocatedNoArena None, OpSetNoArena ''d'', OpDestroyNoArena]"


text \<open>
  An unset holder set to a string of 20 characters in arena 0: the string has outgrown the
  inline buffer and sits in an arena array of 20 bytes.
\<close>

definition ex_big_mem :: memory where
  "ex_big_mem = \<lparr>objs = [32 \<mapsto> string_copy ''dflt'' Static,
                         64 \<mapsto> \<lparr>data = ''twenty characters...'', capacity = 20,
                                 buf = ArenaBuf 0, place = InArena 0\<rparr>],
                 brk = 96, owned = [], deleted = [], arrays = [(Some 0, 20)],
                 overruns = [64]\<rparr>"

text \<open>The same with a default of 26 characters.\<close>

definition ex_long_default_mem :: memory where
  "ex_long_default_mem = \<lparr>objs = [32 \<mapsto> string_copy ''abcdefghijklmnopqrstuvwxyz'' Static],
                          brk = 64, owned = [], deleted = [], arrays = [], overruns = []\<rparr>"

definition ex_long_default_big_mem :: memory where
  "ex_long_default_big_mem =
     \<lparr>objs = [32 \<mapsto> string_copy ''abcdefghijklmnopqrstuvwxyz'' Static,
              64 \<mapsto> \<lparr>data = ''twenty characters...'', capacity = 20,
                      buf = ArenaBuf 0, place = InArena 0\<rparr>],
      brk = 96, owned = [], deleted = [], arrays = [(Some 0, 20)], overruns = [64]\<rparr>"

section \<open>Tagged pointers\<close>

lemma and_not_one: "(x :: 64 word) AND 1 = 0 \<Longrightarrow> x AND NOT 1 = x"
proof -
  assume a: "x AND 1 = 0"
  have "x = x AND (1 OR NOT 1)" by simp
  also have "\<dots> = (x AND 1) OR (x AND NOT 1)" by (simp only: bit.conj_disj_distrib)
  also have "\<dots> = x AND NOT 1" by (simp only: a or.left_neutral)
  finally show ?thesis by (rule sym)
qed

lemma or_one_and_not_one: "(x :: 64 word) AND 1 = 0 \<Longrightarrow> (x OR 1) AND NOT 1 = x"
proof -
  assume a: "x AND 1 = 0"
  have "(x OR 1) AND NOT 1 = (x AND NOT 1) OR (1 AND NOT 1)"
    by (simp only: bit.conj_disj_distrib2)
  also have "\<dots> = x AND NOT 1" by simp
  finally show ?thesis by (simp only: and_not_one [OF a])
qed

lemma or_one_and_one: "((x :: 64 word) OR 1) AND 1 = 1"
  by (simp add: bit.conj_disj_distrib2)

lemma and_not_one_and_one: "((x :: 64 word) AND NOT 1) AND 1 = 0"
  by (simp only: and.assoc bit.conj_cancel_left and.right_neutral and_zero_eq)

lemma word_and_one_zero_iff: "(x :: 64 word) AND 1 = 0 \<longleftrightarrow> even x"
  by (simp add: and_one_eq even_iff_mod_2_eq_zero)

lemma even_word_of_nat64: "even (word_of_nat n :: 64 word) \<longleftrightarrow> even n"
  by (simp flip: bit_0 add: bit_of_nat_iff)

lemma aligned_of_nat: "aligned (word_of_nat n) \<longleftrightarrow> even n"
  unfolding aligned_def kTagMask_def
  by (simp only: word_and_one_zero_iff even_word_of_nat64)

lemma unat_of_nat64: "n < 2 ^ 64 \<Longrightarrow> unat (word_of_nat n :: 64 word) = n"
  by (simp add: unat_of_nat take_bit_nat_eq_self)

lemma Set_StdString: "TaggedPtr_Set StdString p = p"
  by (simp add: TaggedPtr_Set_def)

lemma tag_aligned: "tag p \<longleftrightarrow> \<not> aligned p"
  by (simp add: tag_def aligned_def)

lemma Get_aligned: "aligned p \<Longrightarrow> TaggedPtr_Get p = p"
  by (simp only: TaggedPtr_Get_def kPointerMask_def kTagMask_def aligned_def and_not_one)

lemma aligned_Get: "aligned (TaggedPtr_Get p)"
  by (simp only: TaggedPtr_Get_def kPointerMask_def kTagMask_def aligned_def and_not_one_and_one)

lemma As_StdString: "As StdString p = (if aligned p then Inr p else Inl DCheckFailed)"
  using Get_aligned [of p]
  by (simp add: As_def Is_def tag_aligned TaggedPtr_Get_def)

lemma Is_StdString: "Is StdString p \<longleftrightarrow> aligned p"
  by (simp add: Is_def tag_aligned)

lemma Is_ArenaStr: "Is ArenaStr p \<longleftrightarrow> \<not> aligned p"
  by (simp add: Is_def tag_aligned)

lemma As_ArenaStr: "As ArenaStr p = (if aligned p then Inl DCheckFailed else Inr (TaggedPtr_Get p))"
  by (simp add: As_def Is_def tag_aligned TaggedPtr_Get_def)

lemma IsDefault_iff: "IsDefault d p \<longleftrightarrow> p = d \<and> aligned d"
  by (auto simp: IsDefault_def Is_StdString As_StdString)

lemma not_aligned_Set_ArenaStr: "\<not> aligned (TaggedPtr_Set ArenaStr p)"
  by (simp add: TaggedPtr_Set_def aligned_def kTagMask_def or_one_and_one)

lemma Get_Set_ArenaStr: "aligned p \<Longrightarrow> TaggedPtr_Get (TaggedPtr_Set ArenaStr p) = p"
  unfolding TaggedPtr_Set_def TaggedPtr_Get_def aligned_def kTagMask_def kPointerMask_def
  by (simp only: class_tag.simps if_True or_one_and_not_one)

section \<open>The plain assignment\<close>

lemma string_assign_fits:
  "length v \<le> capacity s \<Longrightarrow> string_assign v s = Inr (s\<lparr>data := v\<rparr>)"
  by (simp add: string_assign_def)

lemma string_assign_grows:
  "capacity s < length v \<Longrightarrow> \<not> on_arena (buf s) \<Longrightarrow>
   string_assign v s =
     Inr (s\<lparr>data := v, capacity := max (length v) (2 * capacity s), buf := HeapBuf\<rparr>)"
  by (simp add: string_assign_def)

lemma string_assign_aborts:
  "string_assign v s = Inl e \<longleftrightarrow> e = BadDelete \<and> capacity s < length v \<and> on_arena (buf s)"
  by (auto simp: string_assign_def)

lemma string_assign_Inr:
  assumes "string_assign v s = Inr s'"
  shows "data s' = v" "place s' = place s" "capacity s \<le> capacity s'"
    "\<not> on_arena (buf s) \<Longrightarrow> \<not> on_arena (buf s')"
  using assms by (auto simp: string_assign_def max_def split: if_splits)

lemma string_assign_total:
  "\<not> (on_arena (buf s) \<and> capacity s < length v) \<Longrightarrow> \<exists>s'. string_assign v s = Inr s'"
  by (auto simp: string_assign_def)

lemma assign_at_live:
  "objs m p = Some s \<Longrightarrow>
   assign_at v p m =
     (case string_assign v s of
        Inl e \<Rightarrow> Inl e
      | Inr s' \<Rightarrow> Inr (store p s' (if writes_past_end (length v) s then overrun p m else m)))"
  by (simp add: assign_at_def deref_def)

lemma objs_overrun: "objs (overrun p m) = objs m"
  by (simp add: overrun_def)

lemma assign_at_Inr:
  assumes "objs m p = Some s" "string_assign v s = Inr s'"
  shows "\<exists>m'. assign_at v p m = Inr m' \<and> objs m' = (objs m)(p \<mapsto> s') \<and> brk m' = brk m
           \<and> owned m' = owned m \<and> arrays m' = arrays m \<and> deleted m' = deleted m
           \<and> overruns m' = overruns m @ (if writes_past_end (length v) s then [p] else [])"
  using assms by (simp add: assign_at_live store_def overrun_def)

section \<open>ArenaString::Assign and the capacity\<close>

lemma Assign_grow:
  assumes "objs m this = Some s" "capacity s < length v"
  shows "Assign v (Some a) this m =
           Inr (True, store this (s\<lparr>data := v, capacity := length v, buf := ArenaBuf a\<rparr>)
                        (overrun this (Arena_CreateArray a (length v) m)))"
  using assms
  by (cases s)
    (simp add: Assign_def deref_def Let_def assign_at_def string_assign_def store_def
      overrun_def Arena_CreateArray_def writes_past_end_def)

lemma Assign_fits:
  assumes "objs m this = Some s" "length v \<le> capacity s"
  shows "Assign v arena this m =
           Inr (arena \<noteq> None,
                store this (s\<lparr>data := v\<rparr>)
                  (if writes_past_end (length v) s then overrun this m else m))"
  using assms
  by (cases arena) (simp_all add: Assign_def deref_def assign_at_live string_assign_fits)

lemma Assign_no_arena_outgrown:
  assumes "objs m this = Some s" "capacity s < length v"
  shows "Assign v None this m =
           (if on_arena (buf s) then Inl BadDelete
            else Inr (False, store this
                       (s\<lparr>data := v, capacity := max (length v) (2 * capacity s),
                          buf := HeapBuf\<rparr>) m))"
  using assms
  by (simp add: Assign_def deref_def assign_at_live string_assign_def writes_past_end_def)

lemma Assign_step:
  assumes "objs m this = Some s"
  shows "case Assign v arena this m of
           Inr (r, m') \<Rightarrow> (\<exists>s'. objs m' this = Some s' \<and> capacity s \<le> capacity s')
         | Inl e \<Rightarrow> e = BadDelete \<and> arena = None \<and> capacity s < length v \<and> on_arena (buf s)"
proof (cases "length v \<le> capacity s")
  case True
  then show ?thesis
    using Assign_fits [OF assms True, where arena = arena] by (simp add: store_def overrun_def)
next
  case False
  then have lt: "capacity s < length v" by simp
  show ?thesis
  proof (cases arena)
    case None
    then show ?thesis
      using Assign_no_arena_outgrown [OF assms lt] lt by (simp add: store_def max_def)
  next
    case (Some a)
    then show ?thesis
      using Assign_grow [OF assms lt, where a = a] lt by (simp add: store_def)
  qed
qed

lemma Assign_seq_capacity:
  "objs m this = Some s \<Longrightarrow>
   (case Assign_seq vs this m of
      Inr m' \<Rightarrow> (\<exists>s'. objs m' this = Some s' \<and> capacity s \<le> capacity s')
    | Inl e \<Rightarrow> e = BadDelete \<and> (\<exists>v. (v, None) \<in> set vs))"
proof (induction vs arbitrary: m s)
  case Nil
  then show ?case by simp
next
  case (Cons x vs)
  obtain v arena where x: "x = (v, arena)" by (cases x)
  note st = Assign_step [OF Cons.prems, where v = v and arena = arena]
  show ?case
  proof (cases "Assign v arena this m")
    case (Inl e)
    with st x show ?thesis by auto
  next
    case (Inr rm)
    obtain r m1 where rm: "rm = (r, m1)" by (cases rm)
    with st Inr obtain s1 where s1: "objs m1 this = Some s1" "capacity s \<le> capacity s1"
      by auto
    from Cons.IH [OF s1(1)] s1(2) x Inr rm show ?thesis
      by (auto split: sum.splits)
  qed
qed

text \<open>
  Claim C9. Let \<open>this\<close> be a live \<^verbatim>\<open>ArenaString\<close>. With an arena and a capacity
  smaller than the size of the value, \<^verbatim>\<open>Assign\<close> takes one character array of exactly
  that size from the arena and leaves the string with the value, that capacity and the
  arena array as its buffer; the terminator of the value then lies one byte past the
  array. When the value fits the capacity, with or without an arena, nothing is
  allocated: no array is taken, the allocation mark stays, and the string keeps its
  capacity and buffer and has the value; the terminator is written past the end exactly
  when the buffer is an array of exactly the capacity and the value fills it. Without an
  arena \<^verbatim>\<open>Assign\<close> stops the program exactly when the value outgrows an arena array.
  A run of assignments to the string, each with or without an arena, either returns with
  the string live and its capacity not below the one it started with, or is stopped by
  such an assignment without an arena; a run in which every assignment has an arena
  returns.
\<close>

theorem Assign_capacity_discipline:
  assumes "objs m this = Some s"
  shows "(capacity s < length v \<longrightarrow>
            (\<exists>m'. Assign v (Some a) this m = Inr (True, m')
               \<and> objs m' this = Some (s\<lparr>data := v, capacity := length v, buf := ArenaBuf a\<rparr>)
               \<and> arrays m' = arrays m @ [(Some a, length v)]
               \<and> overruns m' = overruns m @ [this]))
       \<and> (length v \<le> capacity s \<longrightarrow>
            (\<exists>m'. Assign v arena this m = Inr (arena \<noteq> None, m')
               \<and> objs m' this = Some (s\<lparr>data := v\<rparr>)
               \<and> arrays m' = arrays m \<and> brk m' = brk m
               \<and> overruns m' = overruns m @ (if writes_past_end (length v) s then [this] else [])))
       \<and> ((\<exists>e. Assign v None this m = Inl e) \<longleftrightarrow> capacity s < length v \<and> on_arena (buf s))
       \<and> (case Assign_seq vs this m of
             Inr m' \<Rightarrow> (\<exists>s'. objs m' this = Some s' \<and> capacity s \<le> capacity s')
           | Inl e \<Rightarrow> e = BadDelete \<and> (\<exists>v. (v, None) \<in> set vs))
       \<and> (list_all (\<lambda>(v, arena). arena \<noteq> None) vs \<longrightarrow>
            (\<exists>m'. Assign_seq vs this m = Inr m'))"
proof -
  have g: "capacity s < length v \<longrightarrow>
            (\<exists>m'. Assign v (Some a) this m = Inr (True, m')
               \<and> objs m' this = Some (s\<lparr>data := v, capacity := length v, buf := ArenaBuf a\<rparr>)
               \<and> arrays m' = arrays m @ [(Some a, length v)]
               \<and> overruns m' = overruns m @ [this])"
    using Assign_grow [OF assms, where v = v and a = a]
    by (simp add: store_def overrun_def Arena_CreateArray_def)
  have f: "length v \<le> capacity s \<longrightarrow>
            (\<exists>m'. Assign v arena this m = Inr (arena \<noteq> None, m')
               \<and> objs m' this = Some (s\<lparr>data := v\<rparr>)
               \<and> arrays m' = arrays m \<and> brk m' = brk m
               \<and> overruns m' = overruns m @ (if writes_past_end (length v) s then [this] else []))"
    using Assign_fits [OF assms, where v = v and arena = arena]
    by (simp add: store_def overrun_def)
  have n: "(\<exists>e. Assign v None this m = Inl e) \<longleftrightarrow> capacity s < length v \<and> on_arena (buf s)"
  proof (cases "capacity s < length v")
    case True
    then show ?thesis
      using Assign_no_arena_outgrown [OF assms True] by simp
  next
    case False
    then show ?thesis
      using Assign_fits [OF assms, where v = v and arena = None] by simp
  qed
  note r = Assign_seq_capacity [OF assms, where vs = vs]
  have t: "list_all (\<lambda>(v, arena). arena \<noteq> None) vs \<longrightarrow> (\<exists>m'. Assign_seq vs this m = Inr m')"
    using r by (auto simp: list_all_iff split: sum.splits)
  from g f n r t show ?thesis by blast
qed

lemmas assign_eval =
  Assign_def deref_def assign_at_def string_assign_def writes_past_end_def overrun_def
  store_def Arena_CreateArray_def Let_def string_copy_def kInternalCapacity_def

lemma Assign_twenty:
  "Assign ''twenty characters...'' (Some 0) 64 ex_arena_mem = Inr (True, ex_big_mem)"
  by (simp add: assign_eval ex_arena_mem_def ex_big_mem_def) (simp add: eval_nat_numeral)

lemma Assign_outgrows_no_arena:
  "Assign ''abcdefghijklmnopqrstuvwxyz'' None 64 ex_big_mem = Inl BadDelete"
  by (simp add: assign_eval ex_big_mem_def)

theorem Assign_capacity_discipline_witness:
  "objs ex_arena_mem 64 = Some (string_copy ''old'' (InArena 0))
   \<and> Assign ''twenty characters...'' (Some 0) 64 ex_arena_mem = Inr (True, ex_big_mem)
   \<and> arrays ex_big_mem = arrays ex_arena_mem @ [(Some 0, 20)]
   \<and> map_option capacity (objs ex_big_mem 64) = Some 20
   \<and> (\<exists>m'. Assign ''ten chars.'' None 64 ex_big_mem = Inr (False, m')
         \<and> map_option capacity (objs m' 64) = Some 20
         \<and> map_option data (objs m' 64) = Some ''ten chars.''
         \<and> arrays m' = arrays ex_big_mem \<and> overruns m' = overruns ex_big_mem)
   \<and> Assign ''abcdefghijklmnopqrstuvwxyz'' None 64 ex_big_mem = Inl BadDelete
   \<and> Assign_seq [(''twenty characters...'', Some 0), (''abcdefghijklmnopqrstuvwxyz'', None)]
        64 ex_arena_mem = Inl BadDelete
   \<and> (\<exists>m' s'. Assign_seq [(''twenty characters...'', Some 0), (''ten chars.'', None),
                           (''abcdefghijklmnopqrstuvwxyz'', Some 0)] 64 ex_arena_mem = Inr m'
         \<and> objs m' 64 = Some s' \<and> 15 \<le> capacity s')"
proof -
  have live: "objs ex_arena_mem 64 = Some (string_copy ''old'' (InArena 0))"
    by (simp add: ex_arena_mem_def)
  have big: "objs ex_big_mem 64 =
      Some \<lparr>data = ''twenty characters...'', capacity = 20, buf = ArenaBuf 0, place = InArena 0\<rparr>"
    by (simp add: ex_big_mem_def)
  have arr: "arrays ex_big_mem = arrays ex_arena_mem @ [(Some 0, 20)]"
    by (simp add: ex_big_mem_def ex_arena_mem_def)
  have cap: "map_option capacity (objs ex_big_mem 64) = Some 20"
    by (simp add: big)
  have old: "capacity (string_copy ''old'' (InArena 0)) = 15"
    by (simp add: string_copy_def kInternalCapacity_def)
  have fits: "\<exists>m'. Assign ''ten chars.'' None 64 ex_big_mem = Inr (False, m')
         \<and> map_option capacity (objs m' 64) = Some 20
         \<and> map_option data (objs m' 64) = Some ''ten chars.''
         \<and> arrays m' = arrays ex_big_mem \<and> overruns m' = overruns ex_big_mem"
    using Assign_capacity_discipline [OF big, where v = "''ten chars.''" and arena = None,
        THEN conjunct2, THEN conjunct1]
    by (auto simp: writes_past_end_def)
  have run: "\<exists>m' s'. Assign_seq [(''twenty characters...'', Some 0), (''ten chars.'', None),
                           (''abcdefghijklmnopqrstuvwxyz'', Some 0)] 64 ex_arena_mem = Inr m'
         \<and> objs m' 64 = Some s' \<and> 15 \<le> capacity s'"
  proof -
    note r = Assign_capacity_discipline [OF live,
        where vs = "[(''twenty characters...'', Some 0), (''ten chars.'', None),
                     (''abcdefghijklmnopqrstuvwxyz'', Some 0)]"]
    obtain m1 where m1: "Assign ''ten chars.'' None 64 ex_big_mem = Inr (False, m1)"
      "map_option capacity (objs m1 64) = Some 20"
      using fits by blast
    then obtain s1 where s1: "objs m1 64 = Some s1" by auto
    from Assign_capacity_discipline [OF s1, where v = "''abcdefghijklmnopqrstuvwxyz''" and a = 0
        and arena = "Some 0"]
    obtain m2 where m2: "Assign ''abcdefghijklmnopqrstuvwxyz'' (Some 0) 64 m1 = Inr (True, m2)"
      by (cases "capacity s1 < length ''abcdefghijklmnopqrstuvwxyz''") auto
    have "Assign_seq [(''twenty characters...'', Some 0), (''ten chars.'', None),
                           (''abcdefghijklmnopqrstuvwxyz'', Some 0)] 64 ex_arena_mem = Inr m2"
      by (simp add: Assign_twenty m1 m2)
    with r old show ?thesis by auto
  qed
  have stop: "Assign_seq [(''twenty characters...'', Some 0),
      (''abcdefghijklmnopqrstuvwxyz'', None)] 64 ex_arena_mem = Inl BadDelete"
    by (simp add: Assign_twenty Assign_outgrows_no_arena)
  from live Assign_twenty arr cap fits Assign_outgrows_no_arena stop run show ?thesis
    by blast
qed

section \<open>Set on a heap-owned holder\<close>

lemma Get_store_same: "Get ptr (store (TaggedPtr_Get ptr) s m) = Inr (data s)"
  by (simp add: Get_def deref_def store_def)

lemma Set_heap_tag:
  assumes "\<not> IsDefault d ptr" "aligned ptr"
  shows "Set d v arena ptr m =
           (case assign_at v ptr m of Inl e \<Rightarrow> Inl e | Inr m' \<Rightarrow> Inr (ptr, m'))"
  using assms by (simp add: Set_def Is_StdString As_StdString)

text \<open>
  Claim C10. Take a holder that carries the heap tag and does not point at the default,
  with a live payload, and any arena argument. \<^verbatim>\<open>Set\<close> takes the branch of the plain
  string assignment. Unless the payload's characters are in an arena array that the value
  outgrows, the tagged pointer that comes back is the one that went in (so the state is
  still HeapOwned), the payload at that address has been assigned the value by the plain
  assignment, it is where it was allocated, and the holder reads the value. In the
  remaining case the plain assignment stops the program; the holder has not changed
  either.
\<close>

theorem Set_keeps_heap_representation:
  assumes "state_of d ptr = HeapOwned" "objs m (TaggedPtr_Get ptr) = Some s"
  shows "(\<not> (on_arena (buf s) \<and> capacity s < length v) \<longrightarrow>
            (\<exists>m' s'. Set d v arena ptr m = Inr (ptr, m')
               \<and> string_assign v s = Inr s'
               \<and> m' = store (TaggedPtr_Get ptr) s'
                        (if writes_past_end (length v) s then overrun (TaggedPtr_Get ptr) m else m)
               \<and> Get ptr m' = Inr v
               \<and> map_option place (objs m' (TaggedPtr_Get ptr)) = Some (place s)))
       \<and> (on_arena (buf s) \<and> capacity s < length v \<longrightarrow> Set d v arena ptr m = Inl BadDelete)"
proof -
  from assms(1) have nd: "\<not> IsDefault d ptr" and al: "aligned ptr"
    by (auto simp: state_of_def Is_StdString split: if_splits)
  note g = Get_aligned [OF al]
  from assms(2) g have live: "objs m ptr = Some s" by simp
  note S = Set_heap_tag [OF nd al, of v arena m]
  have "\<exists>m' s'. Set d v arena ptr m = Inr (ptr, m')
               \<and> string_assign v s = Inr s'
               \<and> m' = store (TaggedPtr_Get ptr) s'
                        (if writes_past_end (length v) s then overrun (TaggedPtr_Get ptr) m else m)
               \<and> Get ptr m' = Inr v
               \<and> map_option place (objs m' (TaggedPtr_Get ptr)) = Some (place s)"
    if ok: "\<not> (on_arena (buf s) \<and> capacity s < length v)"
  proof -
    from string_assign_total [OF ok] obtain s' where s': "string_assign v s = Inr s'" by blast
    note i = string_assign_Inr [OF s']
    have "Get ptr (store (TaggedPtr_Get ptr) s' x) = Inr v" for x
      using i(1) by (simp add: Get_store_same)
    moreover have "map_option place (objs (store (TaggedPtr_Get ptr) s' x) (TaggedPtr_Get ptr))
        = Some (place s)" for x
      using i(2) by (simp add: store_def)
    ultimately show ?thesis
      using S s' live g by (simp add: assign_at_live)
  qed
  moreover have "Set d v arena ptr m = Inl BadDelete"
    if "on_arena (buf s) \<and> capacity s < length v"
    using S live that by (simp add: assign_at_live string_assign_def)
  ultimately show ?thesis by blast
qed

theorem Set_keeps_heap_representation_witness:
  "state_of ex_default 64 = HeapOwned
   \<and> Set ex_default ''new value'' (Some 0) 64 ex_heap_mem =
       Inr (64, store 64 \<lparr>data = ''new value'', capacity = 15, buf = Inline, place = OnHeap\<rparr>
                  ex_heap_mem)
   \<and> Get 64 (store 64 \<lparr>data = ''new value'', capacity = 15, buf = Inline, place = OnHeap\<rparr>
                 ex_heap_mem) = Inr ''new value''
   \<and> (\<exists>m'. Set ex_default ''twenty characters...'' (Some 0) 64 ex_heap_mem = Inr (64, m')
         \<and> Get 64 m' = Inr ''twenty characters...''
         \<and> map_option place (objs m' 64) = Some OnHeap)"
proof -
  have al: "aligned (64 :: uintptr)" "aligned (32 :: uintptr)"
    by (simp_all add: aligned_def kTagMask_def)
  have st: "state_of ex_default 64 = HeapOwned"
    by (simp add: state_of_def IsDefault_iff Is_StdString al ex_default_def)
  have live: "objs ex_heap_mem (TaggedPtr_Get 64) = Some (string_copy ''old'' OnHeap)"
    by (simp add: Get_aligned al ex_heap_mem_def)
  have old: "string_copy ''old'' OnHeap =
      \<lparr>data = ''old'', capacity = 15, buf = Inline, place = OnHeap\<rparr>"
    by (simp add: string_copy_def kInternalCapacity_def)
  have a: "Set ex_default ''new value'' (Some 0) 64 ex_heap_mem =
       Inr (64, store 64 \<lparr>data = ''new value'', capacity = 15, buf = Inline, place = OnHeap\<rparr>
                  ex_heap_mem)
     \<and> Get 64 (store 64 \<lparr>data = ''new value'', capacity = 15, buf = Inline, place = OnHeap\<rparr>
                 ex_heap_mem) = Inr ''new value''"
    using Set_keeps_heap_representation [OF st live, where v = "''new value''"
        and arena = "Some 0"]
    by (simp add: Get_aligned al old string_assign_def writes_past_end_def)
  have b: "\<exists>m'. Set ex_default ''twenty characters...'' (Some 0) 64 ex_heap_mem = Inr (64, m')
         \<and> Get 64 m' = Inr ''twenty characters...''
         \<and> map_option place (objs m' 64) = Some OnHeap"
    using Set_keeps_heap_representation [OF st live, where v = "''twenty characters...''"
        and arena = "Some 0", THEN conjunct1]
    by (auto simp: Get_aligned al old)
  from st a b show ?thesis by blast
qed

section \<open>Destroy and SetAllocated\<close>

lemma holder_ok_no_arena:
  assumes "holder_ok d None ptr m" "\<not> IsDefault d ptr"
  shows "aligned ptr" "TaggedPtr_Get ptr = ptr" "ptr \<noteq> d" "heap_owned m ptr"
    "\<exists>s. objs m ptr = Some s \<and> place s = OnHeap"
proof -
  from assms obtain s where s: "objs m (TaggedPtr_Get ptr) = Some s" "\<not> tag ptr"
    "heap_owned m (TaggedPtr_Get ptr)" "aligned d"
    by (auto simp: holder_ok_def split: option.splits if_splits)
  from s(2) show al: "aligned ptr"
    by (simp add: tag_aligned)
  then show g: "TaggedPtr_Get ptr = ptr" by (rule Get_aligned)
  from assms(2) s(4) show "ptr \<noteq> d" by (simp add: IsDefault_iff)
  from s(3) g show ho: "heap_owned m ptr"
    by simp
  then show "\<exists>s. objs m ptr = Some s \<and> place s = OnHeap"
    by (auto simp: heap_owned_def split: option.splits)
qed

lemma Destroy_arena: "Destroy d (Some a) ptr m = Inr m"
  by (simp add: Destroy_def)

lemma Destroy_unset: "IsDefault d ptr \<Longrightarrow> Destroy d None ptr m = Inr m"
  by (simp add: Destroy_def)

lemma Destroy_heap:
  assumes "holder_ok d None ptr m" "\<not> IsDefault d ptr"
  shows "Destroy d None ptr m =
           Inr (m\<lparr>objs := (objs m)(TaggedPtr_Get ptr := None),
                  deleted := deleted m @ [TaggedPtr_Get ptr]\<rparr>)"
proof -
  note h = holder_ok_no_arena [OF assms]
  from h(5) obtain s where "objs m ptr = Some s" "place s = OnHeap" by blast
  then show ?thesis
    using assms(2) h(1,2)
    by (simp add: Destroy_def As_StdString operator_delete_def)
qed

lemma DestroyNoArena_eq: "DestroyNoArena d ptr m = Destroy d None ptr m"
  by (simp add: DestroyNoArena_def Destroy_def)

text \<open>
  Claim C6. With an arena, \<^verbatim>\<open>Destroy\<close> returns the memory as it was: nothing is
  freed. Without one, an unset holder also leaves the memory as it was, so the default is
  not freed; a holder that is not unset (and owns a heap string, as a holder without an
  arena does) has its payload deleted: the object leaves the store, its address is logged
  as freed once, and that address is not the default's. \<^verbatim>\<open>DestroyNoArena\<close> is
  \<^verbatim>\<open>Destroy\<close> without an arena.
\<close>

theorem Destroy_asymmetry:
  "Destroy d (Some a) ptr m = Inr m
   \<and> (IsDefault d ptr \<longrightarrow> Destroy d None ptr m = Inr m)
   \<and> (holder_ok d None ptr m \<and> \<not> IsDefault d ptr \<longrightarrow>
        Destroy d None ptr m =
          Inr (m\<lparr>objs := (objs m)(TaggedPtr_Get ptr := None),
                 deleted := deleted m @ [TaggedPtr_Get ptr]\<rparr>)
        \<and> TaggedPtr_Get ptr \<noteq> d)
   \<and> DestroyNoArena d ptr m = Destroy d None ptr m"
  using Destroy_heap [of d ptr m] holder_ok_no_arena(2,3) [of d ptr m]
  by (simp add: Destroy_arena Destroy_unset DestroyNoArena_eq)

lemma aligned_32_64: "aligned (32 :: uintptr)" "aligned (64 :: uintptr)"
  by (simp_all add: aligned_def kTagMask_def)

lemma ex_heap_holder_ok: "holder_ok ex_default None 64 ex_heap_mem"
  by (simp add: holder_ok_def ex_default_def ex_heap_mem_def aligned_32_64 IsDefault_iff
      Get_aligned tag_aligned heap_owned_def arena_registered_def string_copy_def
      kInternalCapacity_def)

theorem Destroy_asymmetry_witness:
  "holder_ok ex_default None 64 ex_heap_mem \<and> \<not> IsDefault ex_default 64
   \<and> IsDefault ex_default 32
   \<and> Destroy ex_default None 64 ex_heap_mem =
       Inr (ex_heap_mem\<lparr>objs := (objs ex_heap_mem)(64 := None), deleted := [64]\<rparr>)
   \<and> Destroy ex_default None 32 ex_heap_mem = Inr ex_heap_mem
   \<and> Destroy ex_default (Some 0) 64 ex_heap_mem = Inr ex_heap_mem"
proof -
  have nd: "\<not> IsDefault ex_default 64" and ud: "IsDefault ex_default 32"
    by (simp_all add: IsDefault_iff ex_default_def aligned_32_64)
  have del: "deleted ex_heap_mem = []"
    by (simp add: ex_heap_mem_def)
  show ?thesis
    using nd ud ex_heap_holder_ok
      Destroy_asymmetry [of ex_default 0 64 ex_heap_mem]
      Destroy_asymmetry [of ex_default 0 32 ex_heap_mem]
    by (simp add: Get_aligned aligned_32_64 del)
qed

lemma IsDefault_Set_default: "aligned d \<Longrightarrow> IsDefault d (TaggedPtr_Set StdString d)"
  by (simp add: IsDefault_iff Set_StdString)

lemma SetAllocated_null_arena:
  "SetAllocated d None (Some a) ptr m = Inr (TaggedPtr_Set StdString d, m)"
  by (simp add: SetAllocated_def)

lemma SetAllocated_null_unset:
  "IsDefault d ptr \<Longrightarrow> SetAllocated d None None ptr m = Inr (TaggedPtr_Set StdString d, m)"
  by (simp add: SetAllocated_def)

lemma SetAllocated_null_heap:
  assumes "holder_ok d None ptr m" "\<not> IsDefault d ptr"
  shows "SetAllocated d None None ptr m =
           Inr (TaggedPtr_Set StdString d,
                m\<lparr>objs := (objs m)(TaggedPtr_Get ptr := None),
                  deleted := deleted m @ [TaggedPtr_Get ptr]\<rparr>)"
  using assms by (simp add: SetAllocated_def Destroy_heap)

lemma SetAllocatedNoArena_eq:
  "SetAllocatedNoArena d val ptr m = SetAllocated d val None ptr m"
  by (auto simp: SetAllocatedNoArena_def SetAllocated_def Destroy_def
      split: sum.splits option.splits)

text \<open>
  Claim C8. \<^verbatim>\<open>SetAllocated\<close> with a null value and an arena returns the holder
  pointing at the default and the memory as it was: nothing is freed locally. With a null
  value and no arena it also returns the holder pointing at the default, and (for a holder
  that owns a heap string when it is not unset, as a holder without an arena does) the
  freed log grows by the address of the old payload, once, when the holder was not unset,
  and by nothing when it was; the old payload is then no longer live, and neither a
  second \<^verbatim>\<open>SetAllocated\<close> with a null value nor the \<^verbatim>\<open>Destroy\<close> that ends the
  holder's life changes the memory again. A holder pointing at an aligned default is unset.
  \<^verbatim>\<open>SetAllocatedNoArena\<close> is \<^verbatim>\<open>SetAllocated\<close> without an arena.
\<close>

theorem SetAllocated_null_frees_once:
  "SetAllocated d None (Some a) ptr m = Inr (TaggedPtr_Set StdString d, m)
   \<and> (aligned d \<longrightarrow> IsDefault d (TaggedPtr_Set StdString d))
   \<and> (holder_ok d None ptr m \<longrightarrow>
        (\<exists>m'. SetAllocated d None None ptr m = Inr (TaggedPtr_Set StdString d, m')
           \<and> IsDefault d (TaggedPtr_Set StdString d)
           \<and> deleted m' = deleted m @ (if IsDefault d ptr then [] else [TaggedPtr_Get ptr])
           \<and> (\<not> IsDefault d ptr \<longrightarrow> objs m' (TaggedPtr_Get ptr) = None)
           \<and> SetAllocated d None None (TaggedPtr_Set StdString d) m' =
               Inr (TaggedPtr_Set StdString d, m')
           \<and> Destroy d None (TaggedPtr_Set StdString d) m' = Inr m'))
   \<and> SetAllocatedNoArena d None ptr m = SetAllocated d None None ptr m"
proof -
  have "\<exists>m'. SetAllocated d None None ptr m = Inr (TaggedPtr_Set StdString d, m')
           \<and> IsDefault d (TaggedPtr_Set StdString d)
           \<and> deleted m' = deleted m @ (if IsDefault d ptr then [] else [TaggedPtr_Get ptr])
           \<and> (\<not> IsDefault d ptr \<longrightarrow> objs m' (TaggedPtr_Get ptr) = None)
           \<and> SetAllocated d None None (TaggedPtr_Set StdString d) m' =
               Inr (TaggedPtr_Set StdString d, m')
           \<and> Destroy d None (TaggedPtr_Set StdString d) m' = Inr m'"
    if ok: "holder_ok d None ptr m"
  proof -
    from ok have al: "aligned d" by (simp add: holder_ok_def)
    note u = IsDefault_Set_default [OF al]
    show ?thesis
    proof (cases "IsDefault d ptr")
      case True
      then show ?thesis
        using u by (simp add: SetAllocated_null_unset Destroy_unset)
    next
      case False
      then show ?thesis
        using u by (simp add: SetAllocated_null_heap [OF ok False] SetAllocated_null_unset
            Destroy_unset)
    qed
  qed
  then show ?thesis
    by (simp add: SetAllocated_null_arena IsDefault_Set_default SetAllocatedNoArena_eq)
qed

theorem SetAllocated_null_frees_once_witness:
  "aligned ex_default \<and> holder_ok ex_default None 64 ex_heap_mem
   \<and> SetAllocated ex_default None None 64 ex_heap_mem =
       Inr (32, ex_heap_mem\<lparr>objs := (objs ex_heap_mem)(64 := None), deleted := [64]\<rparr>)
   \<and> SetAllocated ex_default None (Some 0) 64 ex_heap_mem = Inr (32, ex_heap_mem)"
proof -
  have nd: "\<not> IsDefault ex_default 64"
    by (simp add: IsDefault_iff ex_default_def aligned_32_64)
  have al: "aligned ex_default"
    by (simp add: ex_default_def aligned_32_64)
  have del: "deleted ex_heap_mem = []"
    by (simp add: ex_heap_mem_def)
  from SetAllocated_null_frees_once [of ex_default 0 64 ex_heap_mem] ex_heap_holder_ok nd
  obtain m' where m': "SetAllocated ex_default None None 64 ex_heap_mem = Inr (32, m')"
    "deleted m' = [64]"
    "SetAllocated ex_default None (Some 0) 64 ex_heap_mem = Inr (32, ex_heap_mem)"
    by (auto simp: Set_StdString ex_default_def del Get_aligned aligned_32_64)
  have "SetAllocated ex_default None None 64 ex_heap_mem =
       Inr (32, ex_heap_mem\<lparr>objs := (objs ex_heap_mem)(64 := None), deleted := [64]\<rparr>)"
    using SetAllocated_null_heap [OF ex_heap_holder_ok nd]
    by (simp add: Set_StdString ex_default_def del Get_aligned aligned_32_64)
  with al ex_heap_holder_ok m'(3) show ?thesis by simp
qed

section \<open>Running the operations on the small memories\<close>

lemmas run_defs =
  Set_def Get_def Mutable_def Release_def ReleaseNonDefault_def UnsafeArenaRelease_def
  ClearToDefault_def ClearToEmpty_def CreateInstance_def Arena_Create_string_def
  assign_at_def clear_at_def writes_past_end_def overrun_def string_clear_def
  Arena_CreateMessage_ArenaString_def Assign_def MoveStorageToHeap_def operator_new_def
  allocate_def deref_def store_def modify_def Arena_Own_def Arena_CreateArray_def
  new_char_array_def string_assign_def string_copy_def string_empty_def string_moved_to_def
  string_moved_from_def kInternalCapacity_def IsDefault_iff Is_def As_def tag_def
  TaggedPtr_Set_def TaggedPtr_Get_def kTagMask_def kPointerMask_def aligned_def
  UnsafeSetDefault_def ex_default_def Let_def

lemma Set_old_arena:
  "Set ex_default ''old'' (Some 0) (UnsafeSetDefault ex_default) ex_mem = Inr (65, ex_arena_mem)"
  by (simp add: run_defs ex_mem_def ex_arena_mem_def)

lemma Set_x_no_arena:
  "Set ex_default ''x'' None (UnsafeSetDefault ex_default) ex_mem = Inr (64, ex_x_mem)"
  by (simp add: run_defs ex_mem_def ex_x_mem_def)

lemma Set_y_arena:
  "Set ex_default ''y'' (Some 0) (UnsafeSetDefault ex_default) ex_x_mem = Inr (97, ex_xy_mem)"
  by (simp add: run_defs ex_x_mem_def ex_xy_mem_def)


lemma Set_twenty_arena:
  "Set ex_default ''twenty characters...'' (Some 0) (UnsafeSetDefault ex_default) ex_mem =
     Inr (65, ex_big_mem)"
  by (simp add: run_defs ex_mem_def ex_big_mem_def) (simp add: eval_nat_numeral)

lemma Set_twenty_arena_long_default:
  "Set ex_default ''twenty characters...'' (Some 0) (UnsafeSetDefault ex_default)
     ex_long_default_mem = Inr (65, ex_long_default_big_mem)"
  by (simp add: run_defs ex_long_default_mem_def ex_long_default_big_mem_def)
    (simp add: eval_nat_numeral)

section \<open>Swap\<close>

text \<open>
  Claim C5. \<^verbatim>\<open>Swap(other)\<close>, and the three-argument \<^verbatim>\<open>Swap\<close> of a build with
  \<^verbatim>\<open>NDEBUG\<close>, return the two tagged pointers exchanged and, the latter, the memory as
  it was: no payload is touched. So when the first holder reads \<open>x\<close> and the second reads
  \<open>y\<close>, after the swap the first reads \<open>y\<close> and the second reads \<open>x\<close>.
\<close>

theorem Swap_pure_exchange:
  "Swap a b = (b, a)
   \<and> Swap3 True d arena a b m = Inr (b, a, m)
   \<and> (Get a m = Inr x \<and> Get b m = Inr y \<longrightarrow>
        (\<exists>a' b' m'. Swap3 True d arena a b m = Inr (a', b', m') \<and> (a', b') = Swap a b
           \<and> a' = b \<and> b' = a \<and> m' = m \<and> Get a' m' = Inr y \<and> Get b' m' = Inr x))"
proof -
  have s: "Swap a b = (b, a)" by (simp add: Swap_def)
  have s3: "Swap3 True d arena a b m = Inr (b, a, m)" by (simp add: Swap3_def s)
  show ?thesis unfolding s s3 by blast
qed

theorem Swap_pure_exchange_witness:
  "Set ex_default ''x'' None (UnsafeSetDefault ex_default) ex_mem = Inr (64, ex_x_mem)
   \<and> Set ex_default ''y'' (Some 0) (UnsafeSetDefault ex_default) ex_x_mem = Inr (97, ex_xy_mem)
   \<and> Get 64 ex_xy_mem = Inr ''x'' \<and> Get 97 ex_xy_mem = Inr ''y''
   \<and> Swap3 True ex_default (Some 0) 64 97 ex_xy_mem = Inr (97, 64, ex_xy_mem)
   \<and> Swap 64 97 = (97, 64)"
proof -
  have g: "Get 64 ex_xy_mem = Inr ''x''" "Get 97 ex_xy_mem = Inr ''y''"
    by (simp_all add: run_defs ex_xy_mem_def)
  note sw = Swap_pure_exchange [of 64 97 ex_default "Some 0" ex_xy_mem "''x''" "''y''"]
  have "Swap3 True ex_default (Some 0) 64 97 ex_xy_mem = Inr (97, 64, ex_xy_mem)"
    "Swap 64 97 = (97, 64)"
    using sw by blast+
  with g Set_x_no_arena Set_y_arena show ?thesis by blast
qed

section \<open>Mutable on an arena-resident holder\<close>

lemma ArenaResident_iff: "state_of d ptr = ArenaResident \<longleftrightarrow> \<not> aligned ptr"
  by (auto simp: state_of_def IsDefault_iff Is_StdString)

lemma Mutable_ArenaResident:
  assumes "state_of d ptr = ArenaResident" "objs m (TaggedPtr_Get ptr) = Some s"
  shows "Mutable d arena ptr m =
           Inr (TaggedPtr_Get ptr, TaggedPtr_Get ptr,
                if capacity s \<noteq> kInternalCapacity
                then store (TaggedPtr_Get ptr) (s\<lparr>capacity := length (data s), buf := CharArray\<rparr>)
                       (new_char_array (length (data s)) m)
                else m)"
proof -
  from assms(1) have na: "\<not> aligned ptr" by (simp add: ArenaResident_iff)
  then have nd: "\<not> IsDefault d ptr" by (auto simp: IsDefault_iff)
  show ?thesis
    using na nd assms(2)
    by (simp add: Mutable_def Is_ArenaStr As_ArenaStr MoveStorageToHeap_def deref_def Let_def
        new_char_array_def Set_StdString As_StdString aligned_Get)
qed

lemma assign_at_inline:
  assumes "objs m p = Some s" "buf s = Inline"
  shows "\<exists>m'. assign_at v p m = Inr m' \<and> map_option data (objs m' p) = Some v
           \<and> overruns m' = overruns m"
proof -
  from assms(2) have "\<not> (on_arena (buf s) \<and> capacity s < length v)" by simp
  from string_assign_total [OF this] obtain s' where s': "string_assign v s = Inr s'" by blast
  from assign_at_Inr [OF assms(1) s'] assms(2) string_assign_Inr(1) [OF s'] show ?thesis
    by (auto simp: writes_past_end_def)
qed

text \<open>
  Claim C7, as the code has it. For a holder in the ArenaResident state with a live
  payload, \<^verbatim>\<open>Mutable\<close> returns the address of the payload, which is the address it had
  before, and leaves the holder with the heap tag and pointing at that address. The
  payload has the characters and the place of allocation it had, and the holder reads
  them. When the capacity is the inline capacity 15, nothing in memory changes: the
  characters stay where they were, in the object in the arena, and when they are inline
  every later assignment through the returned pointer returns, writes inside the buffer
  the string then has, and is what the holder reads. When the capacity is not 15, one
  character array is allocated with \<^verbatim>\<open>new char[]\<close>, it becomes the buffer of the
  payload, and no other object changes.
\<close>

theorem Mutable_promotes:
  assumes "state_of d ptr = ArenaResident" "objs m (TaggedPtr_Get ptr) = Some s"
  shows "\<exists>r ptr' m' s'. Mutable d arena ptr m = Inr (r, ptr', m')
           \<and> Is StdString ptr' \<and> \<not> tag ptr'
           \<and> r = TaggedPtr_Get ptr \<and> TaggedPtr_Get ptr' = r
           \<and> objs m' r = Some s' \<and> data s' = data s \<and> place s' = place s
           \<and> Get ptr' m' = Inr (data s)
           \<and> (capacity s \<noteq> kInternalCapacity \<longrightarrow>
                buf s' = CharArray \<and> heap_backed m' r
                \<and> (\<exists>n. arrays m' = arrays m @ [(None, n)])
                \<and> (\<forall>q. q \<noteq> r \<longrightarrow> objs m' q = objs m q))
           \<and> (capacity s = kInternalCapacity \<longrightarrow> m' = m)
           \<and> (capacity s = kInternalCapacity \<and> buf s = Inline \<longrightarrow>
                (\<forall>w. \<exists>m''. assign_at w r m' = Inr m'' \<and> Get ptr' m'' = Inr w
                   \<and> overruns m'' = overruns m'))"
proof -
  let ?p = "TaggedPtr_Get ptr"
  have al: "aligned ?p" by (rule aligned_Get)
  have g: "TaggedPtr_Get ?p = ?p" by (rule Get_aligned [OF al])
  note M = Mutable_ArenaResident [OF assms, of arena]
  show ?thesis
  proof (cases "capacity s = kInternalCapacity")
    case True
    have "\<exists>m''. assign_at w ?p m = Inr m'' \<and> Get ?p m'' = Inr w \<and> overruns m'' = overruns m"
      if "buf s = Inline" for w
      using assign_at_inline [OF assms(2) that, of w] g
      by (auto simp: Get_def deref_def split: option.splits)
    then show ?thesis
      using M al g assms(2) True
      by (simp add: Is_StdString tag_aligned Get_def deref_def)
  next
    case False
    then show ?thesis
      using M al g
      by (simp add: Is_StdString tag_aligned Get_def deref_def store_def heap_backed_def
          new_char_array_def)
  qed
qed

lemma Get_65: "TaggedPtr_Get 65 = 64"
  by (simp add: TaggedPtr_Get_def kPointerMask_def kTagMask_def)

lemma Mutable_twenty:
  "Mutable ex_default (Some 0) 65 ex_big_mem =
     Inr (64, 64,
          \<lparr>objs = [32 \<mapsto> string_copy ''dflt'' Static,
                   64 \<mapsto> \<lparr>data = ''twenty characters...'', capacity = 20, buf = CharArray,
                           place = InArena 0\<rparr>],
           brk = 96, owned = [], deleted = [], arrays = [(Some 0, 20), (None, 20)],
           overruns = [64]\<rparr>)"
  by (simp add: run_defs ex_big_mem_def) (simp add: eval_nat_numeral)

theorem Mutable_promotes_witness:
  "state_of ex_default 65 = ArenaResident
   \<and> Set ex_default ''twenty characters...'' (Some 0) (UnsafeSetDefault ex_default) ex_mem =
       Inr (65, ex_big_mem)
   \<and> (\<exists>m'. Mutable ex_default (Some 0) 65 ex_big_mem = Inr (64, 64, m')
         \<and> heap_backed m' 64
         \<and> arrays m' = arrays ex_big_mem @ [(None, 20)]
         \<and> Get 64 m' = Inr ''twenty characters...''
         \<and> objs m' 32 = objs ex_big_mem 32)
   \<and> Mutable ex_default (Some 0) 65 ex_arena_mem = Inr (64, 64, ex_arena_mem)
   \<and> Is StdString 64
   \<and> (\<exists>m''. assign_at ''written'' 64 ex_arena_mem = Inr m''
         \<and> Get 64 m'' = Inr ''written'')"
proof -
  have st: "state_of ex_default 65 = ArenaResident"
    by (simp add: ArenaResident_iff aligned_def kTagMask_def)
  have same: "Is StdString p \<Longrightarrow> TaggedPtr_Get p = 64 \<Longrightarrow> p = 64" for p
    by (simp add: Is_StdString Get_aligned)
  have big: "objs ex_big_mem (TaggedPtr_Get 65) =
      Some \<lparr>data = ''twenty characters...'', capacity = 20, buf = ArenaBuf 0, place = InArena 0\<rparr>"
    by (simp add: Get_65 ex_big_mem_def)
  from Mutable_promotes [OF st big, of "Some 0"]
  obtain ptr1 m1 where
    p: "Mutable ex_default (Some 0) 65 ex_big_mem = Inr (64, ptr1, m1)"
      "Is StdString ptr1" "TaggedPtr_Get ptr1 = 64" "heap_backed m1 64"
      "Get ptr1 m1 = Inr ''twenty characters...''" "objs m1 32 = objs ex_big_mem 32"
    by (auto simp: Get_65 kInternalCapacity_def)
  from same [OF p(2,3)] have p1: "ptr1 = 64" .
  from p(1) p1 Mutable_twenty have "arrays m1 = arrays ex_big_mem @ [(None, 20)]"
    by (auto simp: ex_big_mem_def)
  with p p1 have promoted: "\<exists>m'. Mutable ex_default (Some 0) 65 ex_big_mem = Inr (64, 64, m')
         \<and> heap_backed m' 64
         \<and> arrays m' = arrays ex_big_mem @ [(None, 20)]
         \<and> Get 64 m' = Inr ''twenty characters...''
         \<and> objs m' 32 = objs ex_big_mem 32"
    by auto
  have live: "objs ex_arena_mem (TaggedPtr_Get 65) = Some (string_copy ''old'' (InArena 0))"
    by (simp add: Get_65 ex_arena_mem_def)
  have cap: "capacity (string_copy ''old'' (InArena 0)) = kInternalCapacity"
    "buf (string_copy ''old'' (InArena 0)) = Inline"
    by (simp_all add: string_copy_def kInternalCapacity_def)
  from Mutable_promotes [OF st live, of "Some 0"] cap
  obtain ptr2 where
    q: "Mutable ex_default (Some 0) 65 ex_arena_mem = Inr (64, ptr2, ex_arena_mem)"
      "Is StdString ptr2" "TaggedPtr_Get ptr2 = 64"
      "\<forall>w. \<exists>m''. assign_at w 64 ex_arena_mem = Inr m'' \<and> Get ptr2 m'' = Inr w
             \<and> overruns m'' = overruns ex_arena_mem"
    by (auto simp: Get_65)
  from same [OF q(2,3)] have p2: "ptr2 = 64" .
  from q(4) p2 have later: "\<exists>m''. assign_at ''written'' 64 ex_arena_mem = Inr m''
         \<and> Get 64 m'' = Inr ''written''"
    by blast
  from st Set_twenty_arena promoted q(1,2) p2 later show ?thesis
    by blast
qed

text \<open>
  The claim as the spec words it asks for heap-backed memory after the promotion, for
  every arena-resident holder. A holder set to a short string in an arena is
  arena-resident with its characters inline; \<^verbatim>\<open>MoveStorageToHeap\<close> finds the inline
  capacity and changes nothing, so after \<^verbatim>\<open>Mutable\<close> the payload is still the object
  placed in the arena and has no heap buffer.
\<close>

theorem Mutable_inline_not_heap_backed:
  "Set ex_default ''old'' (Some 0) (UnsafeSetDefault ex_default) ex_mem = Inr (65, ex_arena_mem)
   \<and> state_of ex_default 65 = ArenaResident
   \<and> Mutable ex_default (Some 0) 65 ex_arena_mem = Inr (64, 64, ex_arena_mem)
   \<and> \<not> heap_backed ex_arena_mem 64
   \<and> map_option place (objs ex_arena_mem 64) = Some (InArena 0)
   \<and> map_option buf (objs ex_arena_mem 64) = Some Inline"
  by (simp add: Set_old_arena ArenaResident_iff)
    (simp add: run_defs ex_arena_mem_def heap_backed_def)

section \<open>Allocation\<close>

lemma mem_ok_fresh:
  assumes "mem_ok (Suc k) m"
  shows "aligned (word_of_nat (brk m))" "word_of_nat (brk m) \<notin> dom (objs m)"
    "\<not> arena_registered m (word_of_nat (brk m))" "unat (word_of_nat (brk m) :: uintptr) = brk m"
proof -
  from assms have e: "even (brk m)" and b: "brk m < 2 ^ 64"
    and l: "\<forall>p \<in> dom (objs m). unat p < brk m"
    and o: "\<forall>p \<in> snd ` set (owned m). unat p < brk m"
    by (simp_all add: mem_ok_def)
  from e show "aligned (word_of_nat (brk m))" by (simp add: aligned_of_nat)
  from b show u: "unat (word_of_nat (brk m) :: uintptr) = brk m" by (rule unat_of_nat64)
  show "word_of_nat (brk m) \<notin> dom (objs m)"
  proof
    assume "word_of_nat (brk m) \<in> dom (objs m)"
    with l have "unat (word_of_nat (brk m) :: uintptr) < brk m" by (rule bspec)
    with u show False by simp
  qed
  show "\<not> arena_registered m (word_of_nat (brk m))"
    unfolding arena_registered_def
  proof
    assume "word_of_nat (brk m) \<in> snd ` set (owned m)"
    with o have "unat (word_of_nat (brk m) :: uintptr) < brk m" by (rule bspec)
    with u show False by simp
  qed
qed

lemma allocate_ok:
  assumes "mem_ok (Suc k) m"
  shows "allocate s m =
           Inr (word_of_nat (brk m),
                m\<lparr>objs := (objs m)(word_of_nat (brk m) \<mapsto> s), brk := brk m + 32\<rparr>)"
  using assms by (simp add: allocate_def mem_ok_def)

lemma mem_ok_allocated:
  assumes "mem_ok (Suc k) m"
  shows "mem_ok k (m\<lparr>objs := (objs m)(word_of_nat (brk m) \<mapsto> s), brk := brk m + 32\<rparr>)"
  using assms mem_ok_fresh(4) [OF assms]
  by (auto simp: mem_ok_def intro: less_SucI trans_less_add1)

lemma mem_ok_store:
  assumes "mem_ok k m" "p \<in> dom (objs m)"
  shows "mem_ok k (store p s m)"
  using assms by (auto simp: mem_ok_def store_def)

lemma mem_ok_less: "mem_ok (Suc k) m \<Longrightarrow> mem_ok k m"
  by (simp add: mem_ok_def)

section \<open>Release\<close>

lemma holder_ok_default: "holder_ok d arena ptr m \<Longrightarrow> aligned d \<and> d \<in> dom (objs m)"
  by (simp add: holder_ok_def)

lemma holder_ok_live:
  assumes "holder_ok d arena ptr m" "\<not> IsDefault d ptr"
  shows "\<exists>s. objs m (TaggedPtr_Get ptr) = Some s \<and> (aligned ptr \<longrightarrow> \<not> on_arena (buf s))
           \<and> (\<not> aligned ptr \<longrightarrow> arena \<noteq> None)"
  using assms by (auto simp: holder_ok_def tag_aligned split: option.splits if_splits)

lemma Release_unset: "IsDefault d ptr \<Longrightarrow> Release d arena ptr m = Inr (None, ptr, m)"
  by (simp add: Release_def)

lemma Release_no_arena:
  assumes "holder_ok d None ptr m" "\<not> IsDefault d ptr"
  shows "Release d None ptr m = Inr (Some ptr, TaggedPtr_Set StdString d, m)"
  using assms(2) holder_ok_no_arena(1,2) [OF assms]
  by (simp add: Release_def ReleaseNonDefault_def As_StdString)

lemma Release_arena_heap_tag:
  assumes "\<not> IsDefault d ptr" "aligned ptr" "objs m ptr = Some s" "mem_ok (Suc k) m"
  shows "Release d (Some a) ptr m =
           Inr (Some (word_of_nat (brk m)), TaggedPtr_Set StdString d,
                store ptr (string_moved_from s)
                  (m\<lparr>objs := (objs m)(word_of_nat (brk m) \<mapsto>
                                  (string_moved_to s OnHeap)\<lparr>place := OnHeap\<rparr>),
                     brk := brk m + 32\<rparr>))"
  using assms(1-3) allocate_ok [OF assms(4)]
  by (simp add: Release_def ReleaseNonDefault_def Is_StdString As_StdString deref_def
      operator_new_def)

lemma Release_arena_arena_tag:
  assumes "\<not> aligned ptr" "objs m (TaggedPtr_Get ptr) = Some s" "mem_ok (Suc k) m"
  shows "Release d (Some a) ptr m =
           Inr (Some (word_of_nat (brk m)), TaggedPtr_Set StdString d,
                m\<lparr>objs := (objs m)(word_of_nat (brk m) \<mapsto>
                                 (string_copy (data s) OnHeap)\<lparr>place := OnHeap\<rparr>),
                   brk := brk m + 32\<rparr>)"
proof -
  from assms(1) have "\<not> IsDefault d ptr" by (auto simp: IsDefault_iff)
  then show ?thesis
    using assms(1,2) allocate_ok [OF assms(3)]
    by (simp add: Release_def ReleaseNonDefault_def Is_StdString As_ArenaStr deref_def
        operator_new_def)
qed

lemma on_arena_string_copy: "\<not> on_arena (buf (string_copy v pl))"
  by (simp add: string_copy_def)

lemma on_arena_string_moved_to: "\<not> on_arena (buf s) \<Longrightarrow> \<not> on_arena (buf (string_moved_to s pl))"
  by (simp add: string_moved_to_def)

lemma data_string_copy: "data (string_copy v pl) = v"
  by (simp add: string_copy_def)

lemma data_string_moved_to: "data (string_moved_to s pl) = data s"
  by (simp add: string_moved_to_def)

lemma Release_set:
  assumes ok: "holder_ok d arena ptr m" and room: "arena \<noteq> None \<longrightarrow> mem_ok (Suc k) m"
    and nd: "\<not> IsDefault d ptr"
  shows "\<exists>r m'. Release d arena ptr m = Inr (Some r, TaggedPtr_Set StdString d, m')
           \<and> heap_owned m' r
           \<and> map_option data (objs m' r) = map_option data (objs m (TaggedPtr_Get ptr))
           \<and> (arena = None \<longrightarrow> r = TaggedPtr_Get ptr \<and> m' = m)
           \<and> (arena \<noteq> None \<longrightarrow> r \<notin> dom (objs m))
           \<and> r \<noteq> d \<and> objs m' d = objs m d"
proof (cases arena)
  case None
  note h = holder_ok_no_arena [OF ok [unfolded None] nd]
  show ?thesis
    using Release_no_arena [OF ok [unfolded None] nd] h None by simp
next
  case (Some a)
  with room have mo: "mem_ok (Suc k) m" by simp
  note f = mem_ok_fresh [OF mo]
  let ?r = "word_of_nat (brk m) :: uintptr"
  from holder_ok_default [OF ok] have dl: "d \<in> dom (objs m)" by simp
  with f(2) have rd: "?r \<noteq> d" by auto
  from holder_ok_live [OF ok nd] obtain s where s: "objs m (TaggedPtr_Get ptr) = Some s"
    "aligned ptr \<longrightarrow> \<not> on_arena (buf s)" by blast
  show ?thesis
  proof (cases "aligned ptr")
    case True
    then have g: "TaggedPtr_Get ptr = ptr" by (rule Get_aligned)
    from s g f(2) have rp: "?r \<noteq> ptr" by auto
    from nd holder_ok_default [OF ok] have pd: "ptr \<noteq> d" by (simp add: IsDefault_iff)
    show ?thesis
      using Release_arena_heap_tag [OF nd True s(1) [unfolded g] mo, of a] Some g s f rd rp pd True
      by (simp add: heap_owned_def store_def arena_registered_def on_arena_string_moved_to
          data_string_moved_to)
  next
    case False
    show ?thesis
      using Release_arena_arena_tag [OF False s(1) mo, of d a] Some s f rd
      by (simp add: heap_owned_def arena_registered_def on_arena_string_copy data_string_copy)
  qed
qed

lemma UnsafeArenaRelease_unsets:
  assumes ok: "holder_ok d arena ptr m"
  shows "\<exists>r ptr' m'. UnsafeArenaRelease d arena ptr m = Inr (r, ptr', m') \<and> IsDefault d ptr'
           \<and> (r = None \<longleftrightarrow> IsDefault d ptr)"
proof (cases "IsDefault d ptr")
  case True
  then show ?thesis by (simp add: UnsafeArenaRelease_def)
next
  case False
  from holder_ok_live [OF ok False] obtain s where s: "objs m (TaggedPtr_Get ptr) = Some s"
    by blast
  from holder_ok_default [OF ok] have u: "IsDefault d (TaggedPtr_Set StdString d)"
    by (simp add: IsDefault_Set_default)
  show ?thesis
    using False s u
    by (cases "aligned ptr")
      (simp_all add: UnsafeArenaRelease_def Is_ArenaStr As_ArenaStr As_StdString
        MoveStorageToHeap_def deref_def Let_def)
qed



text \<open>
  Claim C1. Let the holder be well-formed for the arena argument, and let the memory have
  room for one more string when there is an arena. \<^verbatim>\<open>Release\<close> on an unset holder
  returns null and changes nothing. On a holder that is not unset it returns a pointer to
  a live heap string that no arena has a registration for and whose characters are in no
  arena buffer, with the content the payload had; without an arena the pointer is the
  holder's own and the memory is unchanged, with an arena the string is a new object; and
  the holder it leaves is unset. \<^verbatim>\<open>UnsafeArenaRelease\<close> too leaves the holder unset,
  returning null exactly when it was unset before.
\<close>

theorem Release_leaves_unset:
  assumes "holder_ok d arena ptr m" "arena \<noteq> None \<longrightarrow> mem_ok (Suc 0) m"
  shows "(IsDefault d ptr \<longrightarrow> Release d arena ptr m = Inr (None, ptr, m))
       \<and> (\<not> IsDefault d ptr \<longrightarrow>
            (\<exists>r ptr' m'. Release d arena ptr m = Inr (Some r, ptr', m')
               \<and> IsDefault d ptr' \<and> heap_owned m' r
               \<and> map_option data (objs m' r) = map_option data (objs m (TaggedPtr_Get ptr))
               \<and> (arena = None \<longrightarrow> r = TaggedPtr_Get ptr \<and> m' = m)
               \<and> (arena \<noteq> None \<longrightarrow> r \<notin> dom (objs m))))
       \<and> (\<exists>r ptr' m'. UnsafeArenaRelease d arena ptr m = Inr (r, ptr', m')
              \<and> IsDefault d ptr' \<and> (r = None \<longleftrightarrow> IsDefault d ptr))"
proof -
  from holder_ok_default [OF assms(1)] have u: "IsDefault d (TaggedPtr_Set StdString d)"
    by (simp add: IsDefault_Set_default)
  have "\<exists>r ptr' m'. Release d arena ptr m = Inr (Some r, ptr', m')
               \<and> IsDefault d ptr' \<and> heap_owned m' r
               \<and> map_option data (objs m' r) = map_option data (objs m (TaggedPtr_Get ptr))
               \<and> (arena = None \<longrightarrow> r = TaggedPtr_Get ptr \<and> m' = m)
               \<and> (arena \<noteq> None \<longrightarrow> r \<notin> dom (objs m))"
    if nd: "\<not> IsDefault d ptr"
    using Release_set [OF assms nd] u by blast
  then show ?thesis
    using UnsafeArenaRelease_unsets [OF assms(1)] by (simp add: Release_unset)
qed

lemma ex_arena_holder_ok: "holder_ok ex_default (Some 0) 65 ex_arena_mem"
  by (simp add: holder_ok_def ex_default_def ex_arena_mem_def aligned_32_64 IsDefault_iff
      TaggedPtr_Get_def kPointerMask_def kTagMask_def tag_def)

lemma ex_arena_mem_ok: "mem_ok (Suc 0) ex_arena_mem"
  by (simp add: mem_ok_def ex_arena_mem_def)

theorem Release_leaves_unset_witness:
  "holder_ok ex_default (Some 0) 65 ex_arena_mem \<and> mem_ok (Suc 0) ex_arena_mem
   \<and> \<not> IsDefault ex_default 65
   \<and> (\<exists>r ptr' m'. Release ex_default (Some 0) 65 ex_arena_mem = Inr (Some r, ptr', m')
         \<and> IsDefault ex_default ptr' \<and> heap_owned m' r
         \<and> map_option data (objs m' r) = Some ''old'' \<and> r \<notin> dom (objs ex_arena_mem))
   \<and> Release ex_default (Some 0) 65 ex_arena_mem =
       Inr (Some 96, 32,
            ex_arena_mem\<lparr>objs := (objs ex_arena_mem)(96 \<mapsto> string_copy ''old'' OnHeap),
                          brk := 128\<rparr>)"
proof -
  have nd: "\<not> IsDefault ex_default 65"
    by (simp add: IsDefault_iff ex_default_def)
  have g: "map_option data (objs ex_arena_mem (TaggedPtr_Get 65)) = Some ''old''"
    by (simp add: run_defs ex_arena_mem_def)
  have r: "Release ex_default (Some 0) 65 ex_arena_mem =
       Inr (Some 96, 32,
            ex_arena_mem\<lparr>objs := (objs ex_arena_mem)(96 \<mapsto> string_copy ''old'' OnHeap),
                          brk := 128\<rparr>)"
    by (simp add: run_defs ex_arena_mem_def)
  have "\<exists>r ptr' m'. Release ex_default (Some 0) 65 ex_arena_mem = Inr (Some r, ptr', m')
         \<and> IsDefault ex_default ptr' \<and> heap_owned m' r
         \<and> map_option data (objs m' r) = Some ''old'' \<and> r \<notin> dom (objs ex_arena_mem)"
    using Release_leaves_unset [of ex_default "Some 0" 65 ex_arena_mem] nd
      ex_arena_holder_ok ex_arena_mem_ok
    unfolding g by simp
  with nd r ex_arena_holder_ok ex_arena_mem_ok show ?thesis by blast
qed

section \<open>Set\<close>

lemma Assign_arena:
  assumes "objs m p = Some s"
  shows "\<exists>s' m1. Assign v (Some a) p m = Inr (True, m1)
           \<and> objs m1 = (objs m)(p \<mapsto> s') \<and> data s' = v
           \<and> brk m1 = brk m \<and> owned m1 = owned m"
proof (cases "capacity s < length v")
  case True
  show ?thesis
    using Assign_grow [OF assms True, of a]
    by (simp add: store_def overrun_def Arena_CreateArray_def)
      (rule exI, rule conjI, rule refl, simp)
next
  case False
  then have "length v \<le> capacity s" by simp
  from Assign_fits [OF assms this, of "Some a"] show ?thesis
    by (simp add: store_def overrun_def)
      (rule exI, rule conjI, rule refl, simp)
qed

lemma Set_unset_no_arena:
  assumes "IsDefault d ptr" "mem_ok (Suc k) m"
  shows "Set d v None ptr m =
           Inr (word_of_nat (brk m),
                m\<lparr>objs := (objs m)(word_of_nat (brk m) \<mapsto> string_copy v OnHeap),
                  brk := brk m + 32\<rparr>)"
proof -
  have "(string_copy v OnHeap)\<lparr>place := OnHeap\<rparr> = string_copy v OnHeap"
    by (simp add: string_copy_def)
  then show ?thesis
    using assms(1) allocate_ok [OF assms(2)]
    by (simp add: Set_def CreateInstance_def Arena_Create_string_def operator_new_def
        Set_StdString)
qed

lemma Set_unset_arena:
  assumes "IsDefault d ptr" "mem_ok (Suc k) m"
  shows "\<exists>s' m1. Set d v (Some a) ptr m = Inr (TaggedPtr_Set ArenaStr (word_of_nat (brk m)), m1)
           \<and> objs m1 = (objs m)(word_of_nat (brk m) \<mapsto> s') \<and> data s' = v
           \<and> brk m1 = brk m + 32 \<and> owned m1 = owned m"
proof -
  let ?r = "word_of_nat (brk m) :: uintptr"
  let ?m0 = "m\<lparr>objs := (objs m)(?r \<mapsto> string_empty (InArena a)), brk := brk m + 32\<rparr>"
  have live: "objs ?m0 ?r = Some (string_empty (InArena a))" by simp
  from Assign_arena [OF live, of v a] obtain s' m1 where
    a: "Assign v (Some a) ?r ?m0 = Inr (True, m1)" "objs m1 = (objs ?m0)(?r \<mapsto> s')"
      "data s' = v" "brk m1 = brk ?m0" "owned m1 = owned ?m0"
    by blast
  have "Set d v (Some a) ptr m = Inr (TaggedPtr_Set ArenaStr ?r, m1)"
    using assms(1) allocate_ok [OF assms(2)] a(1)
    by (simp add: Set_def CreateInstance_def Arena_CreateMessage_ArenaString_def)
  moreover from a(2) have "objs m1 = (objs m)(?r \<mapsto> s')" by simp
  moreover from a(4) have "brk m1 = brk m + 32" by simp
  moreover from a(5) have "owned m1 = owned m" by simp
  ultimately show ?thesis using a(3) by blast
qed

lemma Set_arena_tag:
  assumes "\<not> aligned ptr" "objs m (TaggedPtr_Get ptr) = Some s"
  shows "\<exists>s' m1. Set d v (Some a) ptr m = Inr (ptr, m1)
           \<and> objs m1 = (objs m)(TaggedPtr_Get ptr \<mapsto> s') \<and> data s' = v
           \<and> brk m1 = brk m \<and> owned m1 = owned m"
proof -
  from assms(1) have nd: "\<not> IsDefault d ptr" by (auto simp: IsDefault_iff)
  from Assign_arena [OF assms(2), of v a] obtain s' m1 where
    a: "Assign v (Some a) (TaggedPtr_Get ptr) m = Inr (True, m1)"
      "objs m1 = (objs m)(TaggedPtr_Get ptr \<mapsto> s')" "data s' = v" "brk m1 = brk m"
      "owned m1 = owned m"
    by blast
  have "Set d v (Some a) ptr m = Inr (ptr, m1)"
    using nd assms(1) a(1) by (simp add: Set_def Is_StdString As_ArenaStr)
  with a(2-5) show ?thesis by blast
qed

lemma mem_ok_upd:
  assumes "mem_ok k m" "p \<in> dom (objs m)" "objs m1 = (objs m)(p \<mapsto> s)" "brk m1 = brk m"
    "owned m1 = owned m"
  shows "mem_ok k m1"
  using assms by (auto simp: mem_ok_def)

lemma mem_ok_new:
  assumes "mem_ok (Suc k) m" "objs m1 = (objs m)(word_of_nat (brk m) \<mapsto> s)"
    "brk m1 = brk m + 32" "owned m1 = owned m"
  shows "mem_ok k m1"
  using assms mem_ok_fresh(4) [OF assms(1)]
  by (auto simp: mem_ok_def intro: less_SucI trans_less_add1)

lemma Set_ok:
  assumes ok: "holder_ok d arena ptr m" and mo: "mem_ok (Suc k) m"
  shows "\<exists>ptr1 m1. Set d v arena ptr m = Inr (ptr1, m1) \<and> holder_ok d arena ptr1 m1
           \<and> mem_ok k m1 \<and> \<not> IsDefault d ptr1 \<and> Get ptr1 m1 = Inr v"
proof -
  note dd = holder_ok_default [OF ok]
  note f = mem_ok_fresh [OF mo]
  let ?r = "word_of_nat (brk m) :: uintptr"
  from dd f(2) have rd: "?r \<noteq> d" by auto
  show ?thesis
  proof (cases "IsDefault d ptr")
    case True
    show ?thesis
    proof (cases arena)
      case None
      let ?m1 = "m\<lparr>objs := (objs m)(?r \<mapsto> string_copy v OnHeap), brk := brk m + 32\<rparr>"
      have "holder_ok d None ?r ?m1"
        using dd f rd
        by (simp add: holder_ok_def IsDefault_iff Get_aligned tag_aligned heap_owned_def
            arena_registered_def on_arena_string_copy) (simp add: string_copy_def)
      moreover have "mem_ok k ?m1"
        by (rule mem_ok_new [OF mo]) simp_all
      moreover have "Get ?r ?m1 = Inr v"
        using f(1) by (simp add: Get_def Get_aligned deref_def data_string_copy)
      ultimately show ?thesis
        using Set_unset_no_arena [OF True mo, of v] None rd by (simp add: IsDefault_iff)
    next
      case (Some a)
      from Set_unset_arena [OF True mo, of v a] obtain s' m1 where
        s: "Set d v (Some a) ptr m = Inr (TaggedPtr_Set ArenaStr ?r, m1)"
          "objs m1 = (objs m)(?r \<mapsto> s')" "data s' = v" "brk m1 = brk m + 32" "owned m1 = owned m"
        by blast
      let ?p = "TaggedPtr_Set ArenaStr ?r"
      have g: "TaggedPtr_Get ?p = ?r" by (rule Get_Set_ArenaStr [OF f(1)])
      have na: "\<not> aligned ?p" by (rule not_aligned_Set_ArenaStr)
      then have nd: "\<not> IsDefault d ?p" by (auto simp: IsDefault_iff)
      have "holder_ok d (Some a) ?p m1"
        using dd s(2) g na nd by (simp add: holder_ok_def tag_aligned)
      moreover have "mem_ok k m1"
        by (rule mem_ok_new [OF mo s(2,4,5)])
      moreover have "Get ?p m1 = Inr v"
        using g s(2,3) by (simp add: Get_def deref_def)
      ultimately show ?thesis
        using s(1) Some nd by simp
    qed
  next
    case False
    from holder_ok_live [OF ok False] obtain s where s: "objs m (TaggedPtr_Get ptr) = Some s"
      "aligned ptr \<longrightarrow> \<not> on_arena (buf s)" "\<not> aligned ptr \<longrightarrow> arena \<noteq> None" by blast
    from s(1) have pl: "TaggedPtr_Get ptr \<in> dom (objs m)" by auto
    show ?thesis
    proof (cases "aligned ptr")
      case True
      then have g: "TaggedPtr_Get ptr = ptr" by (rule Get_aligned)
      from s(2) True have "\<not> (on_arena (buf s) \<and> capacity s < length v)" by simp
      from string_assign_total [OF this] obtain s' where s': "string_assign v s = Inr s'"
        by blast
      note i = string_assign_Inr [OF s']
      from assign_at_Inr [OF s(1) [unfolded g] s'] obtain m1 where
        m1: "assign_at v ptr m = Inr m1" "objs m1 = (objs m)(ptr \<mapsto> s')" "brk m1 = brk m"
          "owned m1 = owned m"
        by blast
      have "holder_ok d arena ptr m1"
        using ok False True s g dd m1(2,4) i(2) i(4)
        by (auto simp: holder_ok_def tag_aligned heap_owned_def arena_registered_def)
      moreover have "mem_ok k m1"
        by (rule mem_ok_upd [OF mem_ok_less [OF mo] pl [unfolded g] m1(2,3,4)])
      moreover have "Get ptr m1 = Inr v"
        using g m1(2) i(1) by (simp add: Get_def deref_def)
      ultimately show ?thesis
        using Set_heap_tag [OF False True, of v arena m] m1(1) False by simp
    next
      case na: False
      with s(3) obtain a where a: "arena = Some a" by auto
      from Set_arena_tag [OF na s(1), of d v a] obtain s' m1 where
        t: "Set d v (Some a) ptr m = Inr (ptr, m1)"
          "objs m1 = (objs m)(TaggedPtr_Get ptr \<mapsto> s')" "data s' = v" "brk m1 = brk m"
          "owned m1 = owned m"
        by blast
      have "holder_ok d arena ptr m1"
        using dd t(2) na a False by (simp add: holder_ok_def tag_aligned)
      moreover have "mem_ok k m1"
        by (rule mem_ok_upd [OF mem_ok_less [OF mo] pl t(2,4,5)])
      moreover have "Get ptr m1 = Inr v"
        using t(2,3) by (simp add: Get_def deref_def)
      ultimately show ?thesis
        using t(1) a False by simp
    qed
  qed
qed

section \<open>Round trip\<close>

lemma Get_data: "Get ptr m = Inr v \<longleftrightarrow> map_option data (objs m (TaggedPtr_Get ptr)) = Some v"
  by (auto simp: Get_def deref_def split: option.splits)

text \<open>
  Claim C2. Let the holder be well-formed for the arena argument and let the memory have
  room for two more strings. Then \<^verbatim>\<open>Set\<close> with a value followed by \<^verbatim>\<open>Release\<close>,
  both with that arena, succeed; the released pointer is to a live heap string with the
  value as content, registered with no arena and with no arena buffer; the holder is
  unset and reads the default; and whatever is assigned to the released string afterwards
  is stored in it, while the holder still reads the default as before.
\<close>

theorem Set_Release_round_trip:
  assumes "holder_ok d arena ptr m" "mem_ok (Suc (Suc 0)) m"
  shows "\<exists>ptr1 m1 r ptr2 m2 dv.
           Set d v arena ptr m = Inr (ptr1, m1)
           \<and> Release d arena ptr1 m1 = Inr (Some r, ptr2, m2)
           \<and> map_option data (objs m2 r) = Some v
           \<and> heap_owned m2 r
           \<and> IsDefault d ptr2
           \<and> Get ptr2 m2 = Inr dv
           \<and> (\<forall>w. \<exists>m3. assign_at w r m2 = Inr m3
                  \<and> map_option data (objs m3 r) = Some w
                  \<and> Get ptr2 m3 = Inr dv)"
proof -
  from Set_ok [OF assms, of v] obtain ptr1 m1 where
    s: "Set d v arena ptr m = Inr (ptr1, m1)" "holder_ok d arena ptr1 m1" "mem_ok (Suc 0) m1"
      "\<not> IsDefault d ptr1" "Get ptr1 m1 = Inr v"
    by blast
  from s(3) have room: "arena \<noteq> None \<longrightarrow> mem_ok (Suc 0) m1" by simp
  from Release_set [OF s(2) room s(4)] obtain r m2 where
    r: "Release d arena ptr1 m1 = Inr (Some r, TaggedPtr_Set StdString d, m2)"
      "heap_owned m2 r"
      "map_option data (objs m2 r) = map_option data (objs m1 (TaggedPtr_Get ptr1))"
      "r \<noteq> d" "objs m2 d = objs m1 d"
    by blast
  note dd = holder_ok_default [OF s(2)]
  then obtain ds where ds: "objs m1 d = Some ds" by auto
  from r(2) obtain rs where rs: "objs m2 r = Some rs" "\<not> on_arena (buf rs)"
    by (auto simp: heap_owned_def split: option.splits)
  let ?ptr2 = "TaggedPtr_Set StdString d"
  have g: "TaggedPtr_Get ?ptr2 = d"
    using dd by (simp add: Set_StdString Get_aligned)
  have "map_option data (objs m2 r) = Some v"
    using r(3) s(5) by (simp add: Get_data)
  moreover have "IsDefault d ?ptr2"
    using dd by (simp add: IsDefault_Set_default)
  moreover have "Get ?ptr2 m2 = Inr (data ds)"
    using g r(5) ds by (simp add: Get_data)
  moreover have "\<exists>m3. assign_at w r m2 = Inr m3
                  \<and> map_option data (objs m3 r) = Some w
                  \<and> Get ?ptr2 m3 = Inr (data ds)" for w
  proof -
    from rs(2) have "\<not> (on_arena (buf rs) \<and> capacity rs < length w)" by simp
    from string_assign_total [OF this] obtain s' where s': "string_assign w rs = Inr s'"
      by blast
    from assign_at_Inr [OF rs(1) s'] obtain m3 where
      m3: "assign_at w r m2 = Inr m3" "objs m3 = (objs m2)(r \<mapsto> s')"
      by blast
    with string_assign_Inr(1) [OF s'] r(4,5) ds g show ?thesis
      by (simp add: Get_data)
  qed
  ultimately show ?thesis
    using s(1) r(1,2) by blast
qed


lemma ex_unset_holder_ok: "holder_ok ex_default arena (UnsafeSetDefault ex_default) ex_mem"
  by (simp add: holder_ok_def ex_default_def ex_mem_def aligned_32_64 IsDefault_iff
      UnsafeSetDefault_def Set_StdString)

lemma ex_mem_ok: "mem_ok (Suc (Suc 0)) ex_mem"
  by (simp add: mem_ok_def ex_mem_def)

theorem Set_Release_round_trip_witness:
  "holder_ok ex_default (Some 0) (UnsafeSetDefault ex_default) ex_mem
   \<and> mem_ok (Suc (Suc 0)) ex_mem
   \<and> Set ex_default ''old'' (Some 0) (UnsafeSetDefault ex_default) ex_mem = Inr (65, ex_arena_mem)
   \<and> (\<exists>r ptr2 m2 dv.
         Release ex_default (Some 0) 65 ex_arena_mem = Inr (Some r, ptr2, m2)
         \<and> map_option data (objs m2 r) = Some ''old''
         \<and> heap_owned m2 r
         \<and> IsDefault ex_default ptr2
         \<and> Get ptr2 m2 = Inr dv
         \<and> (\<exists>m3. assign_at ''changed'' r m2 = Inr m3
                \<and> map_option data (objs m3 r) = Some ''changed''
                \<and> Get ptr2 m3 = Inr dv))"
proof -
  from Set_Release_round_trip [OF ex_unset_holder_ok ex_mem_ok,
      where arena = "Some 0" and v = "''old''"]
  obtain ptr1 m1 r ptr2 m2 dv where
    t: "Set ex_default ''old'' (Some 0) (UnsafeSetDefault ex_default) ex_mem = Inr (ptr1, m1)"
      "Release ex_default (Some 0) ptr1 m1 = Inr (Some r, ptr2, m2)"
      "map_option data (objs m2 r) = Some ''old''"
      "heap_owned m2 r" "IsDefault ex_default ptr2" "Get ptr2 m2 = Inr dv"
      "\<forall>w. \<exists>m3. assign_at w r m2 = Inr m3
                  \<and> map_option data (objs m3 r) = Some w
                  \<and> Get ptr2 m3 = Inr dv"
    by blast
  from t(1) have e: "ptr1 = 65" "m1 = ex_arena_mem"
    by (simp_all add: Set_old_arena)
  from t(7) have "\<exists>m3. assign_at ''changed'' r m2 = Inr m3
                \<and> map_option data (objs m3 r) = Some ''changed''
                \<and> Get ptr2 m3 = Inr dv"
    by (rule spec)
  with t(2-6) e ex_unset_holder_ok ex_mem_ok Set_old_arena show ?thesis
    by blast
qed

section \<open>ClearToDefault on an arena-resident holder\<close>

text \<open>
  Claim C3 asks that the holder reads the value after \<^verbatim>\<open>Set\<close> and the default after
  \<^verbatim>\<open>ClearToDefault\<close>. Take a default of 26 characters and an unset holder, and set
  it to a string of 20 characters in arena 0: the holder is arena-resident, its characters
  in an arena array of 20 bytes, and it reads the value. \<^verbatim>\<open>ClearToDefault\<close> with the
  same arena then assigns the default with the plain assignment of \<^verbatim>\<open>std::string\<close>,
  where \<^verbatim>\<open>Set\<close> goes through \<^verbatim>\<open>ArenaString::Assign\<close>: the string outgrows the
  arena array, the array is handed to \<^verbatim>\<open>operator delete\<close>, and the program stops
  without the holder ever reading the default.
\<close>

theorem ClearToDefault_outgrows_arena_array:
  "Set ex_default ''twenty characters...'' (Some 0) (UnsafeSetDefault ex_default)
     ex_long_default_mem = Inr (65, ex_long_default_big_mem)
   \<and> Get 65 ex_long_default_big_mem = Inr ''twenty characters...''
   \<and> map_option data (objs ex_long_default_big_mem ex_default) =
       Some ''abcdefghijklmnopqrstuvwxyz''
   \<and> map_option buf (objs ex_long_default_big_mem 64) = Some (ArenaBuf 0)
   \<and> ClearToDefault ex_default (Some 0) 65 ex_long_default_big_mem = Inl BadDelete"
  by (simp add: Set_twenty_arena_long_default)
    (simp add: run_defs ex_long_default_big_mem_def)

section \<open>The NoArena methods never set the tag\<close>

lemma allocate_aligned:
  assumes "even (brk m)" "allocate s m = Inr (p, m')"
  shows "aligned p \<and> even (brk m')"
  using assms by (auto simp: allocate_def aligned_of_nat split: if_splits)

lemma allocate_not_dcheck: "allocate s m \<noteq> Inl DCheckFailed"
  by (simp add: allocate_def)

lemma operator_delete_brk:
  "operator_delete p m = Inr m' \<Longrightarrow> brk m' = brk m"
  by (auto simp: operator_delete_def split: option.splits if_splits)

lemma operator_delete_not_dcheck: "operator_delete p m \<noteq> Inl DCheckFailed"
  by (simp add: operator_delete_def split: option.splits)

lemma assign_at_brk: "assign_at v p m = Inr m' \<Longrightarrow> brk m' = brk m"
  by (auto simp: assign_at_def deref_def store_def overrun_def split: option.splits sum.splits)

lemma assign_at_not_dcheck: "assign_at v p m \<noteq> Inl DCheckFailed"
  by (auto simp: assign_at_def deref_def string_assign_def split: option.splits sum.splits)

lemma clear_at_brk: "clear_at p m = Inr m' \<Longrightarrow> brk m' = brk m"
  by (auto simp: clear_at_def deref_def store_def overrun_def split: option.splits)

lemma clear_at_not_dcheck: "clear_at p m \<noteq> Inl DCheckFailed"
  by (simp add: clear_at_def deref_def split: option.splits)

lemma modify_brk: "modify p f m = Inr m' \<Longrightarrow> brk m' = brk m"
  by (auto simp: modify_def deref_def store_def split: option.splits)

lemma modify_not_dcheck: "modify p f m \<noteq> Inl DCheckFailed"
  by (simp add: modify_def deref_def split: option.splits)

lemma CreateInstanceNoArena_aligned:
  assumes "even (brk m)"
  shows "case CreateInstanceNoArena v m of
           Inl e \<Rightarrow> e \<noteq> DCheckFailed
         | Inr (ptr', m') \<Rightarrow> aligned ptr' \<and> even (brk m')"
  using assms
  by (auto simp: CreateInstanceNoArena_def operator_new_def Set_StdString allocate_def
      aligned_of_nat split: sum.splits if_splits)

lemma step_no_arena_aligned:
  assumes "aligned d" "aligned ptr" "even (brk m)" "op_aligned x"
  shows "case step_no_arena d x ptr m of
           Inl e \<Rightarrow> e \<noteq> DCheckFailed
         | Inr (ptr', m') \<Rightarrow> aligned ptr' \<and> even (brk m')"
proof (cases x)
  case (OpSetNoArena v)
  then show ?thesis
    using assms CreateInstanceNoArena_aligned [OF assms(3), of v]
      assign_at_not_dcheck [of v "TaggedPtr_Get ptr" m]
    by (auto simp: SetNoArena_def split: sum.splits dest: assign_at_brk)
next
  case (OpSetNoArena_rvalue v)
  then show ?thesis
    using assms modify_not_dcheck [of ptr "string_move_assign v" m]
    by (auto simp: SetNoArena_rvalue_def operator_new_def Set_StdString As_StdString
        allocate_def aligned_of_nat split: sum.splits if_splits dest: modify_brk)
next
  case OpMutableNoArena
  show ?thesis
  proof (cases "IsDefault d ptr")
    case True
    show ?thesis
    proof (cases "objs m d")
      case None
      with True OpMutableNoArena show ?thesis
        by (simp add: MutableNoArena_def deref_def)
    next
      case (Some dv)
      with True OpMutableNoArena CreateInstanceNoArena_aligned [OF assms(3), of "data dv"]
      show ?thesis
        by (auto simp: MutableNoArena_def deref_def As_StdString split: sum.splits)
    qed
  next
    case False
    with OpMutableNoArena assms show ?thesis
      by (simp add: MutableNoArena_def As_StdString)
  qed
next
  case OpReleaseNoArena
  then show ?thesis
    using assms
    by (simp add: ReleaseNoArena_def ReleaseNonDefaultNoArena_def As_StdString Set_StdString)
next
  case (OpSetAllocatedNoArena v)
  then show ?thesis
    using assms operator_delete_not_dcheck [of ptr m]
    by (cases v)
      (auto simp: SetAllocatedNoArena_def As_StdString Set_StdString
        split: sum.splits dest: operator_delete_brk)
next
  case OpClearToEmptyNoArena
  then show ?thesis
    using assms clear_at_not_dcheck [of ptr m]
    by (auto simp: ClearToEmptyNoArena_def As_StdString split: sum.splits dest: clear_at_brk)
next
  case OpClearToDefaultNoArena
  then show ?thesis
    using assms assign_at_not_dcheck [of _ ptr m]
    by (auto simp: ClearToDefaultNoArena_def As_StdString deref_def
        split: sum.splits option.splits dest: assign_at_brk)
next
  case OpDestroyNoArena
  then show ?thesis
    using assms operator_delete_not_dcheck [of ptr m]
    by (auto simp: DestroyNoArena_def As_StdString split: sum.splits dest: operator_delete_brk)
qed

lemma run_no_arena_aligned:
  assumes "aligned d"
  shows "aligned ptr \<Longrightarrow> even (brk m) \<Longrightarrow> list_all op_aligned ops \<Longrightarrow>
         (case run_no_arena d ops ptr m of
            Inl e \<Rightarrow> e \<noteq> DCheckFailed
          | Inr (ptr', m') \<Rightarrow> aligned ptr' \<and> even (brk m'))"
proof (induction ops arbitrary: ptr m)
  case Nil
  then show ?case by simp
next
  case (Cons x xs)
  from Cons.prems have x: "op_aligned x" and xs: "list_all op_aligned xs" by simp_all
  note st = step_no_arena_aligned [OF assms Cons.prems(1,2) x]
  show ?case
  proof (cases "step_no_arena d x ptr m")
    case (Inl e)
    with st show ?thesis by simp
  next
    case (Inr r)
    obtain ptr1 m1 where r: "r = (ptr1, m1)" by (cases r)
    with st Inr have "aligned ptr1" "even (brk m1)" by simp_all
    from Cons.IH [OF this xs] Inr r show ?thesis by simp
  qed
qed

lemma list_all_take: "list_all P xs \<Longrightarrow> list_all P (take n xs)"
  by (auto simp: list_all_iff dest: in_set_takeD)

text \<open>
  Claim C4. Let the default and every pointer handed to \<^verbatim>\<open>SetAllocatedNoArena\<close> be
  aligned, as pointers to strings are, and let the allocation mark be aligned. Start
  from the unset holder and run any finite sequence of NoArena operations. After every
  prefix of the run that did not stop, the holder does not carry the tag, so its state is
  Unset or HeapOwned and never ArenaResident; and if the run stops, it is never because
  a tag check of \<^verbatim>\<open>As<std::string>\<close> failed.
\<close>

theorem no_arena_confinement:
  assumes "aligned d" "even (brk m)" "list_all op_aligned ops"
  shows "case run_no_arena d (take n ops) (UnsafeSetDefault d) m of
           Inl e \<Rightarrow> e \<noteq> DCheckFailed
         | Inr (ptr', m') \<Rightarrow>
             \<not> tag ptr' \<and> Is StdString ptr' \<and> state_of d ptr' \<noteq> ArenaResident
             \<and> (state_of d ptr' = Unset \<or> state_of d ptr' = HeapOwned)"
proof -
  have u: "aligned (UnsafeSetDefault d)"
    using assms(1) by (simp add: UnsafeSetDefault_def Set_StdString)
  have st: "aligned p \<Longrightarrow> state_of d p \<noteq> ArenaResident
      \<and> (state_of d p = Unset \<or> state_of d p = HeapOwned)" for p
    by (simp add: state_of_def Is_StdString)
  note R = run_no_arena_aligned [OF assms(1) u assms(2) list_all_take [OF assms(3)], of n]
  show ?thesis
  proof (cases "run_no_arena d (take n ops) (UnsafeSetDefault d) m")
    case (Inl e)
    with R show ?thesis by simp
  next
    case (Inr r)
    obtain ptr' m' where r: "r = (ptr', m')" by (cases r)
    with R Inr have al: "aligned ptr'" by simp
    from st [OF al] al Inr r show ?thesis
      by (simp add: tag_aligned Is_StdString)
  qed
qed



lemmas no_arena_defs =
  SetNoArena_def SetNoArena_rvalue_def MutableNoArena_def ReleaseNoArena_def
  ReleaseNonDefaultNoArena_def SetAllocatedNoArena_def DestroyNoArena_def
  ClearToEmptyNoArena_def ClearToDefaultNoArena_def CreateInstanceNoArena_def
  operator_delete_def string_clear_def string_move_assign_def

lemma ex_ops_run:
  "run_no_arena ex_default ex_ops (UnsafeSetDefault ex_default) ex_mem =
     Inr (96, \<lparr>objs = [32 \<mapsto> string_copy ''dflt'' Static], brk = 128, owned = [],
               deleted = [64, 96], arrays = [], overruns = []\<rparr>)"
  by (simp add: ex_ops_def ex_mem_def run_defs no_arena_defs)

theorem no_arena_confinement_witness:
  "aligned ex_default \<and> even (brk ex_mem) \<and> list_all op_aligned ex_ops
   \<and> run_no_arena ex_default ex_ops (UnsafeSetDefault ex_default) ex_mem =
       Inr (96, \<lparr>objs = [32 \<mapsto> string_copy ''dflt'' Static], brk = 128, owned = [],
                 deleted = [64, 96], arrays = [], overruns = []\<rparr>)
   \<and> \<not> tag 96 \<and> state_of ex_default 96 = HeapOwned"
proof -
  have a: "aligned ex_default" by (simp add: ex_default_def aligned_32_64)
  have b: "even (brk ex_mem)" by (simp add: ex_mem_def)
  have c: "list_all op_aligned ex_ops" by (simp add: ex_ops_def aligned_32_64)
  have t: "take 11 ex_ops = ex_ops" by (simp add: ex_ops_def)
  from no_arena_confinement [OF a b c, of 11]
  have "\<not> tag 96 \<and> state_of ex_default 96 \<noteq> ArenaResident
        \<and> (state_of ex_default 96 = Unset \<or> state_of ex_default 96 = HeapOwned)"
    unfolding t ex_ops_run by simp
  moreover have "state_of ex_default 96 \<noteq> Unset"
    by (simp add: state_of_def IsDefault_iff ex_default_def)
  ultimately show ?thesis
    using a b c ex_ops_run by simp
qed

end
